theory Spec2Isabelle
  imports Main "HOL-Library.Sublist"
begin

section \<open>Python values, exceptions and builtins\<close>

text \<open>
  The exceptions that the converter module can raise or let through.
  \<open>UnboundLocalError\<close> is Python's subclass of \<open>NameError\<close> for a local variable read
  before it is bound. \<open>Raised\<close> stands for any exception raised inside a base-class
  helper or inside an external library (pyvtk, numpy), which the module propagates
  unchanged.
\<close>

datatype py_error =
    KeyError string
  | NameError string
  | UnboundLocalError string
  | IndexError
  | ValueError
  | Raised string

definition is_NameError :: "py_error \<Rightarrow> bool" where
  "is_NameError e =
     (case e of NameError n \<Rightarrow> True | UnboundLocalError n \<Rightarrow> True | _ \<Rightarrow> False)"

datatype pyobj = PyModule string | PyClass string | PyInt int

text \<open>Subscription \<open>d[k]\<close> of a dict: a missing key raises \<open>KeyError(k)\<close>.\<close>

definition getitem :: "(string \<rightharpoonup> 'v) \<Rightarrow> string \<Rightarrow> py_error + 'v" where
  "getitem d k = (case d k of None \<Rightarrow> Inl (KeyError k) | Some v \<Rightarrow> Inr v)"

subsection \<open>\<open>str\<close> and \<open>int\<close> on integers\<close>

fun str_nat :: "nat \<Rightarrow> string" where
  "str_nat n = (if n < 10 then [''0123456789'' ! n]
                else str_nat (n div 10) @ [''0123456789'' ! (n mod 10)])"

declare str_nat.simps [simp del]

definition py_str :: "int \<Rightarrow> string" where
  "py_str i = (if i < 0 then CHR ''-'' # str_nat (nat (- i)) else str_nat (nat i))"

definition digit_val :: "char \<Rightarrow> nat option" where
  "digit_val c = (if c \<in> set ''0123456789'' then Some (of_char c - 48) else None)"

fun parse_digits :: "nat \<Rightarrow> string \<Rightarrow> nat option" where
  "parse_digits acc [] = Some acc"
| "parse_digits acc (c # cs) =
     (case digit_val c of None \<Rightarrow> None | Some d \<Rightarrow> parse_digits (10 * acc + d) cs)"

text \<open>
  \<open>int(s)\<close> on a plain decimal literal: an optional sign and at least one digit.
  \<open>None\<close> is returned for every other string (Python raises \<open>ValueError\<close> for most of
  them and accepts a few further forms, with blanks or underscores, which the converter
  never builds).
\<close>

definition py_int :: "string \<Rightarrow> int option" where
  "py_int s =
     (case s of
        [] \<Rightarrow> None
      | c # cs \<Rightarrow>
          if c = CHR ''-'' then
            (if cs = [] then None else map_option (\<lambda>n. - int n) (parse_digits 0 cs))
          else if c = CHR ''+'' then
            (if cs = [] then None else map_option int (parse_digits 0 cs))
          else map_option int (parse_digits 0 s))"

subsection \<open>\<open>str.format\<close>\<close>

text \<open>
  The fragment of \<open>template.format(*args)\<close> that the module relies on: automatic
  fields \<open>{}\<close> and \<open>{:}\<close> take the next positional argument (\<open>IndexError\<close> when none
  is left), \<open>{{\<close> and \<open>}}\<close> are escaped braces, a lone \<open>}\<close> or an unclosed \<open>{\<close> is a
  \<open>ValueError\<close>. Any other replacement field is reported as \<open>Raised\<close>: in the two
  templates of this module both arguments are consumed by the literal's own automatic
  fields, so a further field (numbered, named or with a conversion) always makes
  Python raise, and the model does not tell which exception it is. Surplus arguments
  are ignored, as in Python.
\<close>

fun py_format :: "string \<Rightarrow> string list \<Rightarrow> py_error + string" where
  "py_format [] args = Inr []"
| "py_format (c # cs) args =
     (if c = CHR ''{'' then
        (case cs of
           [] \<Rightarrow> Inl ValueError
         | d # ds \<Rightarrow>
             if d = CHR ''{'' then map_sum id ((#) (CHR ''{'')) (py_format ds args)
             else if d = CHR ''}'' then
               (case args of
                  [] \<Rightarrow> Inl IndexError
                | a # rest \<Rightarrow> map_sum id ((@) a) (py_format ds rest))
             else if d = CHR '':'' then
               (case ds of
                  [] \<Rightarrow> Inl ValueError
                | e # es \<Rightarrow>
                    if e = CHR ''}'' then
                      (case args of
                         [] \<Rightarrow> Inl IndexError
                       | a # rest \<Rightarrow> map_sum id ((@) a) (py_format es rest))
                    else Inl (Raised ''str.format''))
             else Inl (Raised ''str.format''))
      else if c = CHR ''}'' then
        (case cs of
           [] \<Rightarrow> Inl ValueError
         | d # ds \<Rightarrow>
             if d = CHR ''}'' then map_sum id ((#) (CHR ''}'')) (py_format ds args)
             else Inl ValueError)
      else map_sum id ((#) c) (py_format cs args))"

section \<open>The pyvtk containers\<close>

text \<open>
  The type \<open>'a\<close> stands for numeric payloads (numpy arrays, coordinate triples,
  floats), which this module hands on without looking inside.
\<close>

datatype 'a grid =
    StructuredPoints "pyobj list" 'a 'a
  | StructuredGrid "pyobj list" 'a
  | PolyData 'a

datatype 'a vtk_attr = Scalars 'a string | Vectors 'a string

datatype 'a vtk_data = VtkData "'a grid option" "'a vtk_attr list"

datatype 'a vtk_file =
  VtkFile (file_name: string) (file_format: string) (file_data: "'a vtk_data")

text \<open>The calls into pyvtk, as arguments of the oracle that says which of them raise.\<close>

datatype 'a vtk_call =
    NewScalars 'a string
  | NewVectors 'a string
  | NewStructure "'a grid"
  | NewVtkData "'a grid option" "'a vtk_attr list"
  | ToFile "'a vtk_file"

section \<open>The converter instance\<close>

record timeseries =
  avail_fields :: "string list"
  avail_species :: "string list"
  fields_metadata :: "string \<rightharpoonup> (string \<rightharpoonup> string)"

text \<open>
  The attributes of \<open>self\<close>. \<open>ts\<close>, \<open>path\<close>, \<open>dtype\<close> and \<open>dimensions\<close> are set by the
  base class \<open>opmd2VTKGeneric\<close>; the others are assigned by the two public methods.
  \<open>Nth\<close> is an integer, as its docstring says.
\<close>

record 'a converter =
  ts :: timeseries
  path :: string
  dtype :: string
  dimensions :: "pyobj list"
  grid :: "'a grid option"
  iteration :: int
  zmin_fixed :: "'a option"
  CommonMesh :: bool
  Nth :: int
  select :: "(string \<times> 'a) list option"
  scalars :: "string list"

text \<open>
  The methods of the base class \<open>opmd2VTKGeneric\<close> (module \<open>generic\<close>, not part of the
  sources at hand) and the two external libraries are parameters of the model. A base
  class method receives \<open>self\<close> and returns the instance as it leaves it, together
  with its result or the exception it raised. \<open>astype\<close> is numpy's
  \<open>array.astype(dtype)\<close>; \<open>pyvtk_raises\<close> tells for each call into pyvtk whether it
  raises.
\<close>

record 'a env =
  convert_field_vec_full ::
    "'a converter \<Rightarrow> string \<Rightarrow> 'a converter \<times> (py_error + 'a \<times> string)"
  convert_field_scl ::
    "'a converter \<Rightarrow> string \<Rightarrow> 'a converter \<times> (py_error + 'a \<times> string)"
  convert_field_vec_comp ::
    "'a converter \<Rightarrow> string \<Rightarrow> string \<Rightarrow> 'a converter \<times> (py_error + 'a \<times> string)"
  convert_species ::
    "'a converter \<Rightarrow> string \<Rightarrow> 'a converter \<times> (py_error + 'a \<times> 'a list)"
  astype :: "'a \<Rightarrow> string \<Rightarrow> py_error + 'a"
  pyvtk_raises :: "'a vtk_call \<Rightarrow> py_error option"

text \<open>
  What a run can be observed by: the instance, the files handed to the writer (in
  order, under the name passed to \<open>tofile\<close>), and the log of the base-class helper calls
  made (in order, with their arguments).
\<close>

datatype helper_call =
    VecFull string
  | Scl string
  | VecComp string string
  | Species string

record 'a world =
  self :: "'a converter"
  disk :: "'a vtk_file list"
  calls :: "helper_call list"

type_synonym ('a, 'r) action = "'a world \<Rightarrow> 'a world \<times> (py_error + 'r)"

text \<open>Sequencing: an exception ends the computation, the effects made so far stay.\<close>

definition andthen :: "('a, 'r) action \<Rightarrow> ('r \<Rightarrow> ('a, 'q) action) \<Rightarrow> ('a, 'q) action" where
  "andthen m f w = (case m w of (w', Inl e) \<Rightarrow> (w', Inl e) | (w', Inr x) \<Rightarrow> f x w')"

definition lift :: "py_error + 'r \<Rightarrow> ('a, 'r) action" where
  "lift r w = (w, r)"

subsection \<open>Calls of the base-class helpers\<close>

definition call_convert_field_vec_full ::
  "'a env \<Rightarrow> string \<Rightarrow> ('a, 'a \<times> string) action" where
  "call_convert_field_vec_full G fld w =
     (case convert_field_vec_full G (self w) fld of
        (s, r) \<Rightarrow> (w\<lparr>self := s, calls := calls w @ [VecFull fld]\<rparr>, r))"

definition call_convert_field_scl ::
  "'a env \<Rightarrow> string \<Rightarrow> ('a, 'a \<times> string) action" where
  "call_convert_field_scl G fld w =
     (case convert_field_scl G (self w) fld of
        (s, r) \<Rightarrow> (w\<lparr>self := s, calls := calls w @ [Scl fld]\<rparr>, r))"

definition call_convert_field_vec_comp ::
  "'a env \<Rightarrow> string \<Rightarrow> string \<Rightarrow> ('a, 'a \<times> string) action" where
  "call_convert_field_vec_comp G fld compv w =
     (case convert_field_vec_comp G (self w) fld compv of
        (s, r) \<Rightarrow> (w\<lparr>self := s, calls := calls w @ [VecComp fld compv]\<rparr>, r))"

definition call_convert_species ::
  "'a env \<Rightarrow> string \<Rightarrow> ('a, 'a \<times> 'a list) action" where
  "call_convert_species G specie w =
     (case convert_species G (self w) specie of
        (s, r) \<Rightarrow> (w\<lparr>self := s, calls := calls w @ [Species specie]\<rparr>, r))"

subsection \<open>Calls into pyvtk\<close>

definition vtk_Scalars :: "'a env \<Rightarrow> 'a \<Rightarrow> string \<Rightarrow> py_error + 'a vtk_attr" where
  "vtk_Scalars G fdata fname =
     (case pyvtk_raises G (NewScalars fdata fname) of
        Some e \<Rightarrow> Inl e | None \<Rightarrow> Inr (Scalars fdata fname))"

definition vtk_Vectors :: "'a env \<Rightarrow> 'a \<Rightarrow> string \<Rightarrow> py_error + 'a vtk_attr" where
  "vtk_Vectors G fdata fname =
     (case pyvtk_raises G (NewVectors fdata fname) of
        Some e \<Rightarrow> Inl e | None \<Rightarrow> Inr (Vectors fdata fname))"

definition vtk_structure :: "'a env \<Rightarrow> 'a grid \<Rightarrow> py_error + 'a grid" where
  "vtk_structure G g =
     (case pyvtk_raises G (NewStructure g) of Some e \<Rightarrow> Inl e | None \<Rightarrow> Inr g)"

text \<open>\<open>vtk.VtkData(structure, vtk.PointData(*attrs))\<close>\<close>

definition vtk_VtkData ::
  "'a env \<Rightarrow> 'a grid option \<Rightarrow> 'a vtk_attr list \<Rightarrow> py_error + 'a vtk_data" where
  "vtk_VtkData G g attrs =
     (case pyvtk_raises G (NewVtkData g attrs) of
        Some e \<Rightarrow> Inl e | None \<Rightarrow> Inr (VtkData g attrs))"

text \<open>
  \<open>data.tofile(name, format=fmt)\<close>. The disk is the list of the files written so far,
  each under the name that was passed to \<open>tofile\<close>. A write that raises adds no entry
  (what a failed write may leave behind in the file system is not part of the model).
\<close>

definition vtk_tofile :: "'a env \<Rightarrow> 'a vtk_data \<Rightarrow> string \<Rightarrow> string \<Rightarrow> ('a, unit) action" where
  "vtk_tofile G d name fmt w =
     (case pyvtk_raises G (ToFile (VtkFile name fmt d)) of
        Some e \<Rightarrow> (w, Inl e)
      | None \<Rightarrow> (w\<lparr>disk := disk w @ [VtkFile name fmt d]\<rparr>, Inr ()))"

section \<open>The iteration suffix\<close>

text \<open>
  \<^verbatim>\<open>while len(istr)<7 : istr='0'+istr\<close>, the loop of both public methods.
\<close>

function pad7 :: "string \<Rightarrow> string" where
  "pad7 istr = (if length istr < 7 then pad7 (CHR ''0'' # istr) else istr)"
  by pat_completeness auto
termination
  by (relation "measure (\<lambda>s. 7 - length s)") auto

declare pad7.simps [simp del]

text \<open>\<^verbatim>\<open>istr = str(self.iteration)\<close> followed by the padding loop.\<close>

definition iteration_string :: "int \<Rightarrow> string" where
  "iteration_string it = pad7 (py_str it)"

section \<open>\<open>write_fields_vtk\<close>\<close>

text \<open>\<^verbatim>\<open>if flds is None: flds = self.ts.avail_fields\<close>, and the same for species.\<close>

definition requested :: "string list option \<Rightarrow> string list \<Rightarrow> string list" where
  "requested given available = (case given of None \<Rightarrow> available | Some xs \<Rightarrow> xs)"

text \<open>\<^verbatim>\<open>self.ts.fields_metadata[fld]['type']\<close>\<close>

definition field_type :: "'a converter \<Rightarrow> string \<Rightarrow> py_error + string" where
  "field_type slf fld =
     (case getitem (fields_metadata (ts slf)) fld of
        Inl e \<Rightarrow> Inl e
      | Inr md \<Rightarrow> getitem md ''type'')"

text \<open>The loop of the common-mesh branch; \<open>vtk_container\<close> is the list being filled.\<close>

fun fields_common ::
  "'a env \<Rightarrow> string list \<Rightarrow> 'a vtk_attr list \<Rightarrow> ('a, 'a vtk_attr list) action" where
  "fields_common G [] vtk_container w = (w, Inr vtk_container)"
| "fields_common G (fld # flds) vtk_container w =
     andthen (\<lambda>w. (w, field_type (self w) fld)) (\<lambda>ft.
       if ft = ''vector'' then
         andthen (call_convert_field_vec_full G fld) (\<lambda>(fdata, fname).
         andthen (lift (vtk_Vectors G fdata fname)) (\<lambda>vecs.
         fields_common G flds (vtk_container @ [vecs])))
       else if ft = ''scalar'' then
         andthen (call_convert_field_scl G fld) (\<lambda>(fdata, fname).
         andthen (lift (vtk_Scalars G fdata fname)) (\<lambda>scl.
         fields_common G flds (vtk_container @ [scl])))
       else fields_common G flds vtk_container) w"

text \<open>
  The per-component branch. The local variable \<open>comp\<close> is \<open>None\<close> while unbound; it is
  bound by the loop over \<open>comps\<close> and keeps its last value afterwards.
\<close>

definition field_file_name :: "string \<Rightarrow> string \<Rightarrow> ('a, string) action" where
  "field_file_name fld_full istr w =
     (w, map_sum id ((@) (path (self w))) (py_format ''vtk_fields_{}_{}'' [fld_full, istr]))"

definition write_scalar_file ::
  "'a env \<Rightarrow> string \<Rightarrow> string \<Rightarrow> 'a \<times> string \<Rightarrow> ('a, unit) action" where
  "write_scalar_file G file_name' fmt = (\<lambda>(fdata, fname).
     andthen (lift (vtk_Scalars G fdata fname)) (\<lambda>scl.
     andthen (\<lambda>w. (w, vtk_VtkData G (grid (self w)) [scl])) (\<lambda>d.
     vtk_tofile G d file_name' fmt)))"

fun comps_loop ::
  "'a env \<Rightarrow> string \<Rightarrow> string \<Rightarrow> string \<Rightarrow> string list \<Rightarrow> string option \<Rightarrow>
     ('a, string option) action" where
  "comps_loop G fmt istr fld [] compv w = (w, Inr compv)"
| "comps_loop G fmt istr fld (c # comps) compv w =
     andthen (field_file_name (fld @ c) istr) (\<lambda>file_name'.
     andthen (call_convert_field_vec_comp G fld c) (\<lambda>res.
     andthen (write_scalar_file G file_name' fmt res) (\<lambda>u.
     comps_loop G fmt istr fld comps (Some c)))) w"

definition load_local :: "string \<Rightarrow> string option \<Rightarrow> ('a, string) action" where
  "load_local name v w =
     (case v of None \<Rightarrow> (w, Inl (UnboundLocalError name)) | Some c \<Rightarrow> (w, Inr c))"

fun fields_separate ::
  "'a env \<Rightarrow> string \<Rightarrow> string \<Rightarrow> string list \<Rightarrow> string option \<Rightarrow>
     ('a, string option) action" where
  "fields_separate G fmt istr [] compv w = (w, Inr compv)"
| "fields_separate G fmt istr (fld # flds) compv w =
     andthen (\<lambda>w. (w, field_type (self w) fld)) (\<lambda>ft.
       if ft = ''vector'' then
         andthen (comps_loop G fmt istr fld [''x'', ''y'', ''z''] compv) (\<lambda>compv'.
         fields_separate G fmt istr flds compv')
       else if ft = ''scalar'' then
         andthen (field_file_name fld istr) (\<lambda>file_name'.
         andthen (load_local ''comp'' compv) (\<lambda>c.
         andthen (call_convert_field_vec_comp G fld c) (\<lambda>res.
         andthen (write_scalar_file G file_name' fmt res) (\<lambda>u.
         fields_separate G fmt istr flds compv))))
       else fields_separate G fmt istr flds compv) w"

text \<open>Lines 82 to 88: the per-call parameters are stored on the instance.\<close>

definition register_fields ::
  "int \<Rightarrow> 'a option \<Rightarrow> int \<Rightarrow> bool \<Rightarrow> 'a converter \<Rightarrow> 'a converter" where
  "register_fields it zfix nthv cm slf =
     slf\<lparr>iteration := it, zmin_fixed := zfix, CommonMesh := cm, Nth := nthv, grid := None\<rparr>"

text \<open>
  The arguments in the order of the source: \<open>flds\<close> (\<open>None\<close> for all available
  fields), \<open>iteration\<close>, \<open>format\<close>, \<open>zmin_fixed\<close>, \<open>Nth\<close>, \<open>CommonMesh\<close>.
\<close>

definition write_fields_vtk ::
  "'a env \<Rightarrow> string list option \<Rightarrow> int \<Rightarrow> string \<Rightarrow> 'a option \<Rightarrow> int \<Rightarrow> bool \<Rightarrow>
     ('a, unit) action" where
  "write_fields_vtk G flds it fmt zfix nthv cm w =
     (let flds' = requested flds (avail_fields (ts (self w)));
          w1 = w\<lparr>self := register_fields it zfix nthv cm (self w)\<rparr>;
          istr = iteration_string (iteration (self w1))
      in if CommonMesh (self w1) then
           andthen (fields_common G flds' []) (\<lambda>vtk_container.
           andthen (\<lambda>w. (w, vtk_VtkData G (grid (self w)) vtk_container)) (\<lambda>d.
           andthen (\<lambda>w. (w, Inr (path (self w) @ ''vtk_fields_'' @ istr))) (\<lambda>name.
           vtk_tofile G d name fmt))) w1
         else
           andthen (fields_separate G fmt istr flds' None) (\<lambda>last_comp. lift (Inr ())) w1)"

section \<open>\<open>write_species_vtk\<close>\<close>

text \<open>
  \<^verbatim>\<open>for i, scalar in enumerate(scalars_to_add)\<close>, building \<open>scalars_vtk\<close>; \<open>i\<close> is the
  running index, \<open>self.scalars[i]\<close> raises \<open>IndexError\<close> beyond the end of the list.
\<close>

fun scalars_loop ::
  "'a env \<Rightarrow> nat \<Rightarrow> 'a list \<Rightarrow> 'a vtk_attr list \<Rightarrow> ('a, 'a vtk_attr list) action" where
  "scalars_loop G i [] scalars_vtk w = (w, Inr scalars_vtk)"
| "scalars_loop G i (scalar # others) scalars_vtk w =
     andthen (\<lambda>w. (w, astype G scalar (dtype (self w)))) (\<lambda>arr.
     andthen (\<lambda>w. (w, if i < length (scalars (self w)) then Inr (scalars (self w) ! i)
                       else Inl IndexError)) (\<lambda>name.
     andthen (lift (vtk_Scalars G arr name)) (\<lambda>s.
     scalars_loop G (Suc i) others (scalars_vtk @ [s])))) w"

fun species_loop ::
  "'a env \<Rightarrow> string \<Rightarrow> string \<Rightarrow> string \<Rightarrow> string list \<Rightarrow> ('a, unit) action" where
  "species_loop G fmt istr name_base [] w = (w, Inr ())"
| "species_loop G fmt istr name_base (specie # others) w =
     andthen (call_convert_species G specie) (\<lambda>(points, scalars_to_add).
     andthen (lift (vtk_structure G (PolyData points))) (\<lambda>pts_vtk.
     andthen (scalars_loop G 0 scalars_to_add []) (\<lambda>scalars_vtk.
     andthen (lift (vtk_VtkData G (Some pts_vtk) scalars_vtk)) (\<lambda>d.
     andthen (lift (py_format name_base [specie, istr])) (\<lambda>name.
     andthen (vtk_tofile G d name fmt) (\<lambda>u.
     species_loop G fmt istr name_base others)))))) w"

text \<open>Lines 174 to 177.\<close>

definition register_species ::
  "int \<Rightarrow> 'a option \<Rightarrow> (string \<times> 'a) list option \<Rightarrow> string list \<Rightarrow>
     'a converter \<Rightarrow> 'a converter" where
  "register_species it zfix sel scs slf =
     slf\<lparr>iteration := it, zmin_fixed := zfix, select := sel, scalars := scs\<rparr>"

text \<open>
  The arguments in the order of the source: \<open>species\<close> (\<open>None\<close> for all available
  species), \<open>iteration\<close>, \<open>format\<close>, \<open>scalars\<close>, \<open>select\<close>, \<open>zmin_fixed\<close>.
\<close>

definition write_species_vtk ::
  "'a env \<Rightarrow> string list option \<Rightarrow> int \<Rightarrow> string \<Rightarrow> string list \<Rightarrow>
     (string \<times> 'a) list option \<Rightarrow> 'a option \<Rightarrow> ('a, unit) action" where
  "write_species_vtk G species it fmt scs sel zfix w =
     (let species' = requested species (avail_species (ts (self w)));
          w1 = w\<lparr>self := register_species it zfix sel scs (self w)\<rparr>;
          istr = iteration_string (iteration (self w1));
          name_base = path (self w1) @ ''vtk_specie_{:}_{:}''
      in species_loop G fmt istr name_base species' w1)"

section \<open>The mesh builders\<close>

text \<open>
  The names bound at module level: the three imported modules, the imported base
  class and the class defined here. No builtin is called \<open>Nr\<close> or \<open>Nz\<close>.
\<close>

definition module_globals :: "(string \<times> pyobj) list" where
  "module_globals =
     [(''vtk'', PyModule ''pyvtk''), (''np'', PyModule ''numpy''), (''os'', PyModule ''os''),
      (''opmd2VTKGeneric'', PyClass ''opmd2VTKGeneric''), (''Opmd2VTK'', PyClass ''Opmd2VTK'')]"

text \<open>Reading a name that the function does not bind itself.\<close>

definition load_global :: "string \<Rightarrow> py_error + pyobj" where
  "load_global name =
     (case map_of module_globals name of None \<Rightarrow> Inl (NameError name) | Some v \<Rightarrow> Inr v)"

definition get_mesh_3d ::
  "'a env \<Rightarrow> 'a converter \<Rightarrow> 'a \<Rightarrow> 'a \<Rightarrow> 'a converter \<times> (py_error + unit)" where
  "get_mesh_3d G slf origin resolutions =
     (case vtk_structure G (StructuredPoints (dimensions slf) origin resolutions) of
        Inl e \<Rightarrow> (slf, Inl e)
      | Inr g \<Rightarrow> (slf\<lparr>grid := Some g\<rparr>, Inr ()))"

text \<open>
  The arguments of the constructor are evaluated from left to right, before the call
  and before the assignment to \<open>self.grid\<close>.
\<close>

definition get_mesh_circ ::
  "'a env \<Rightarrow> 'a converter \<Rightarrow> pyobj list \<Rightarrow> 'a \<Rightarrow> 'a converter \<times> (py_error + unit)" where
  "get_mesh_circ G slf dims points =
     (let nth1 = PyInt (Nth slf + 1) in
      case load_global ''Nr'' of
        Inl e \<Rightarrow> (slf, Inl e)
      | Inr nr \<Rightarrow>
          (case load_global ''Nz'' of
             Inl e \<Rightarrow> (slf, Inl e)
           | Inr nz \<Rightarrow>
               (case vtk_structure G (StructuredGrid [nth1, nr, nz] points) of
                  Inl e \<Rightarrow> (slf, Inl e)
                | Inr g \<Rightarrow> (slf\<lparr>grid := Some g\<rparr>, Inr ()))))"

section \<open>Vocabulary of the statements\<close>

text \<open>
  Several statements below are about base-class helpers that touch nothing on the
  instance but the mesh cache (\<open>grid\<close>, and \<open>dimensions\<close> from which it is built).
\<close>

definition keeps_attrs :: "'a converter \<Rightarrow> 'a converter \<Rightarrow> bool" where
  "keeps_attrs s s' =
     (ts s' = ts s \<and> path s' = path s \<and> dtype s' = dtype s \<and>
      iteration s' = iteration s \<and> zmin_fixed s' = zmin_fixed s \<and>
      CommonMesh s' = CommonMesh s \<and> Nth s' = Nth s \<and>
      select s' = select s \<and> scalars s' = scalars s)"

definition mesh_only :: "'a env \<Rightarrow> bool" where
  "mesh_only G =
     (\<forall>s fld c.
        keeps_attrs s (fst (convert_field_vec_full G s fld)) \<and>
        keeps_attrs s (fst (convert_field_scl G s fld)) \<and>
        keeps_attrs s (fst (convert_field_vec_comp G s fld c)) \<and>
        keeps_attrs s (fst (convert_species G s fld)))"

text \<open>A field whose metadata is there and declares a type other than the two known.\<close>

definition unrecognised :: "'a converter \<Rightarrow> string \<Rightarrow> bool" where
  "unrecognised slf fld =
     (case field_type slf fld of
        Inl e \<Rightarrow> False
      | Inr t \<Rightarrow> t \<noteq> ''vector'' \<and> t \<noteq> ''scalar'')"

text \<open>
  The file names and the helper calls that the per-component mode is expected to
  produce for a list of fields.
\<close>

definition separate_names :: "'a converter \<Rightarrow> string \<Rightarrow> string list \<Rightarrow> string list" where
  "separate_names slf istr flds =
     concat (map (\<lambda>fld.
       if field_type slf fld = Inr ''vector'' then
         map (\<lambda>c. path slf @ ''vtk_fields_'' @ fld @ c @ ''_'' @ istr) [''x'', ''y'', ''z'']
       else if field_type slf fld = Inr ''scalar'' then
         [path slf @ ''vtk_fields_'' @ fld @ ''_'' @ istr]
       else []) flds)"

definition separate_calls :: "'a converter \<Rightarrow> string list \<Rightarrow> helper_call list" where
  "separate_calls slf flds =
     concat (map (\<lambda>fld.
       if field_type slf fld = Inr ''vector'' then
         [VecComp fld ''x'', VecComp fld ''y'', VecComp fld ''z'']
       else if field_type slf fld = Inr ''scalar'' then
         [VecComp fld ''z'']
       else []) flds)"

text \<open>
  What a file written for a species has to be: its name ends with
  \<open>vtk_specie_<species>_<iter7>\<close>, its format is the requested one, and its content is
  the point cloud that \<open>_convert_species\<close> returned for this species, with the returned
  arrays, converted to \<open>dtype\<close>, attached as scalar arrays, the i-th under the i-th
  of the given names.
\<close>

definition species_file ::
  "'a env \<Rightarrow> 'a converter \<Rightarrow> string list \<Rightarrow> string \<Rightarrow> string \<Rightarrow> string \<Rightarrow> 'a vtk_file \<Rightarrow> bool" where
  "species_file G slf names fmt istr specie f =
     (\<exists>s points raw arrs.
        keeps_attrs slf s \<and>
        snd (convert_species G s specie) = Inr (points, raw) \<and>
        map (\<lambda>a. astype G a (dtype slf)) raw = map Inr arrs \<and>
        length arrs \<le> length names \<and>
        suffix (''vtk_specie_'' @ specie @ ''_'' @ istr) (file_name f) \<and>
        file_format f = fmt \<and>
        file_data f =
          VtkData (Some (PolyData points)) (map (\<lambda>(a, n). Scalars a n) (zip arrs names)))"

subsection \<open>A small reader and environment\<close>

text \<open>
  A reader with a vector field \<open>E\<close>, a scalar field \<open>rho\<close>, a field \<open>J\<close> of an unknown
  type and one species; helpers that build the Cartesian mesh when there is none and
  return fixed data; libraries that never raise.
\<close>

definition ts0 :: timeseries where
  "ts0 =
     \<lparr>avail_fields = [''E'', ''rho''], avail_species = [''electrons''],
      fields_metadata =
        [''E'' \<mapsto> [''type'' \<mapsto> ''vector''], ''rho'' \<mapsto> [''type'' \<mapsto> ''scalar''],
         ''J'' \<mapsto> [''type'' \<mapsto> ''tensor'']]\<rparr>"

definition self0 :: "nat converter" where
  "self0 =
     \<lparr>ts = ts0, path = ''out/'', dtype = ''float32'',
      dimensions = [PyInt 4, PyInt 4, PyInt 4], grid = None, iteration = 0,
      zmin_fixed = None, CommonMesh = True, Nth = 24, select = None, scalars = []\<rparr>"

definition mesh0 :: "nat converter \<Rightarrow> nat converter" where
  "mesh0 s =
     (if grid s = None then s\<lparr>grid := Some (StructuredPoints (dimensions s) 0 1)\<rparr> else s)"

definition G0 :: "nat env" where
  "G0 =
     \<lparr>convert_field_vec_full = (\<lambda>s fld. (mesh0 s, Inr (3, fld))),
      convert_field_scl = (\<lambda>s fld. (mesh0 s, Inr (1, fld))),
      convert_field_vec_comp = (\<lambda>s fld c. (mesh0 s, Inr (1, fld @ c))),
      convert_species = (\<lambda>s sp. (s, Inr (7, map length (scalars s)))),
      astype = (\<lambda>a t. Inr a),
      pyvtk_raises = (\<lambda>c. None)\<rparr>"

definition w0 :: "nat world" where
  "w0 = \<lparr>self = self0, disk = [], calls = []\<rparr>"

section \<open>Properties of the iteration suffix\<close>

lemma digit_cases:
  assumes "d < (10::nat)"
  shows "d = 0 \<or> d = 1 \<or> d = 2 \<or> d = 3 \<or> d = 4 \<or> d = 5 \<or> d = 6 \<or> d = 7 \<or> d = 8 \<or> d = 9"
  using assms by arith

lemma digit_val_digit:
  assumes "d < 10"
  shows "digit_val (''0123456789'' ! d) = Some d"
  using digit_cases [OF assms] by (auto simp: digit_val_def)

lemma digit_not_sign:
  assumes "d < 10"
  shows "''0123456789'' ! d \<noteq> CHR ''-'' \<and> ''0123456789'' ! d \<noteq> CHR ''+''"
  using digit_cases [OF assms] by auto

lemma parse_digits_snoc:
  "parse_digits acc (s @ [c]) =
     (case parse_digits acc s of
        None \<Rightarrow> None
      | Some a \<Rightarrow> (case digit_val c of None \<Rightarrow> None | Some d \<Rightarrow> Some (10 * a + d)))"
  by (induction s arbitrary: acc) (auto split: option.splits)

lemma parse_str_nat: "parse_digits 0 (str_nat n) = Some n"
proof (induction n rule: str_nat.induct)
  case (1 n)
  show ?case
  proof (cases "n < 10")
    case True
    then show ?thesis
      by (subst str_nat.simps) (simp add: digit_val_digit)
  next
    case False
    have "n mod 10 < 10" by simp
    with False "1" show ?thesis
      by (subst str_nat.simps) (simp add: parse_digits_snoc digit_val_digit)
  qed
qed

lemma length_str_nat: "n < 10 ^ k \<Longrightarrow> 0 < k \<Longrightarrow> length (str_nat n) \<le> k"
proof (induction n arbitrary: k rule: str_nat.induct)
  case (1 n)
  show ?case
  proof (cases "n < 10")
    case True
    with "1.prems" show ?thesis
      by (subst str_nat.simps) simp
  next
    case False
    with "1.prems" obtain j where k: "k = Suc j"
      by (cases k) auto
    with False "1.prems" have j: "0 < j"
      by (cases j) auto
    from "1.prems" k have "n div 10 < 10 ^ j"
      by (simp add: less_mult_imp_div_less mult.commute)
    with "1.IH" [OF False this j] False k show ?thesis
      by (subst str_nat.simps) simp
  qed
qed

lemma str_nat_first: "str_nat n \<noteq> [] \<and> hd (str_nat n) \<noteq> CHR ''-'' \<and> hd (str_nat n) \<noteq> CHR ''+''"
proof (induction n rule: str_nat.induct)
  case (1 n)
  show ?case
  proof (cases "n < 10")
    case True
    then show ?thesis
      using digit_not_sign [of n] by (subst (1 2 3) str_nat.simps) simp
  next
    case False
    with "1" show ?thesis
      by (subst (1 2 3) str_nat.simps) simp
  qed
qed

lemma length_pad7: "length (pad7 s) = max 7 (length s)"
  by (induction s rule: pad7.induct) (subst pad7.simps, simp)

lemma parse_pad7: "parse_digits 0 (pad7 s) = parse_digits 0 s"
  by (induction s rule: pad7.induct) (subst pad7.simps, simp add: digit_val_def)

lemma pad7_first:
  "s \<noteq> [] \<Longrightarrow> hd s \<noteq> CHR ''-'' \<Longrightarrow> hd s \<noteq> CHR ''+'' \<Longrightarrow>
   pad7 s \<noteq> [] \<and> hd (pad7 s) \<noteq> CHR ''-'' \<and> hd (pad7 s) \<noteq> CHR ''+''"
  by (induction s rule: pad7.induct) (subst (1 2 3) pad7.simps, simp)

lemma py_int_unsigned:
  "s \<noteq> [] \<Longrightarrow> hd s \<noteq> CHR ''-'' \<Longrightarrow> hd s \<noteq> CHR ''+'' \<Longrightarrow>
   py_int s = map_option int (parse_digits 0 s)"
  by (cases s) (simp_all add: py_int_def)

text \<open>
  C3: for every iteration number from 0 up to 9,999,999 the suffix that
  \<open>write_fields_vtk\<close> and \<open>write_species_vtk\<close> build (both by \<open>iteration_string\<close>) has
  exactly 7 characters, and reading it back with \<open>int\<close> gives the iteration number.
\<close>

theorem iteration_string_roundtrip:
  assumes "0 \<le> it" and "it < 10000000"
  shows "length (iteration_string it) = 7 \<and> py_int (iteration_string it) = Some it"
proof -
  from assms have s: "py_str it = str_nat (nat it)"
    by (simp add: py_str_def)
  from assms have "nat it < 10 ^ 7" by simp
  then have "length (str_nat (nat it)) \<le> 7"
    by (rule length_str_nat) simp
  then have len: "length (iteration_string it) = 7"
    by (simp add: iteration_string_def s length_pad7)
  have "py_int (pad7 (str_nat (nat it))) = map_option int (parse_digits 0 (pad7 (str_nat (nat it))))"
    using pad7_first [of "str_nat (nat it)"] str_nat_first [of "nat it"]
    by (intro py_int_unsigned) simp_all
  with assms have "py_int (iteration_string it) = Some it"
    by (simp add: iteration_string_def s parse_pad7 parse_str_nat)
  with len show ?thesis by simp
qed

theorem iteration_string_roundtrip_witness:
  "(0::int) \<le> 42 \<and> (42::int) < 10000000 \<and> iteration_string 42 = ''0000042'' \<and>
   length (iteration_string 42) = 7 \<and> py_int (iteration_string 42) = Some 42"
  using iteration_string_roundtrip [of 42]
  by (simp add: iteration_string_def py_str_def pad7.simps str_nat.simps)

section \<open>The cylindrical mesh builder\<close>

text \<open>
  C8: every call of \<open>_get_mesh_circ\<close> raises \<open>NameError\<close>, for the name \<open>Nr\<close> that
  nothing binds (the parameter \<open>dimensions\<close> is not used), and leaves the instance, so
  also \<open>self.grid\<close>, as it was.
\<close>

theorem get_mesh_circ_NameError:
  "get_mesh_circ G slf dims points = (slf, Inl (NameError ''Nr'')) \<and>
   is_NameError (NameError ''Nr'') \<and>
   grid (fst (get_mesh_circ G slf dims points)) = grid slf"
  by (simp add: get_mesh_circ_def load_global_def module_globals_def is_NameError_def)

section \<open>Runs of the field loops\<close>

lemma andthen_Inr:
  "andthen m f w = (w'', Inr y) \<longleftrightarrow> (\<exists>w' x. m w = (w', Inr x) \<and> f x w' = (w'', Inr y))"
  by (auto simp: andthen_def split: prod.splits sum.splits)

lemma andthen_cases:
  assumes "andthen m f w = (w'', r)"
  obtains (raised) e where "m w = (w'', Inl e)" and "r = Inl e"
        | (went_on) w' x where "m w = (w', Inr x)" and "f x w' = (w'', r)"
  using assms by (auto simp: andthen_def split: prod.splits sum.splits)

lemma andthen_assoc:
  "andthen (andthen m f) g = andthen m (\<lambda>x. andthen (f x) g)"
  by (rule ext) (auto simp: andthen_def split: prod.splits sum.splits)

lemma andthen_cong_run:
  assumes "\<And>w' x. m w = (w', Inr x) \<Longrightarrow> f x w' = g x w'"
  shows "andthen m f w = andthen m g w"
  using assms by (auto simp: andthen_def split: prod.splits sum.splits)

lemma keeps_attrs_refl: "keeps_attrs s s"
  by (simp add: keeps_attrs_def)

lemma keeps_attrs_trans: "keeps_attrs s s' \<Longrightarrow> keeps_attrs s' s'' \<Longrightarrow> keeps_attrs s s''"
  by (simp add: keeps_attrs_def)

lemma keeps_field_type: "keeps_attrs s s' \<Longrightarrow> field_type s' = field_type s"
  by (rule ext) (simp add: keeps_attrs_def field_type_def)

lemma py_format_fields:
  "py_format ''vtk_fields_{}_{}'' [a, b] = Inr (''vtk_fields_'' @ a @ ''_'' @ b)"
  by (simp add: sum.map_comp comp_def)

lemma field_file_name_eq:
  "field_file_name f istr w = (w, Inr (path (self w) @ ''vtk_fields_'' @ f @ ''_'' @ istr))"
  by (simp add: field_file_name_def py_format_fields)

lemma write_scalar_file_cases:
  assumes "write_scalar_file G n fmt (fdata, fname) w = (w', r)"
  shows "(r = Inr () \<and>
          w' = w\<lparr>disk := disk w @ [VtkFile n fmt (VtkData (grid (self w)) [Scalars fdata fname])]\<rparr>)
         \<or> ((\<exists>e. r = Inl e) \<and> w' = w)"
  using assms
  by (auto simp: write_scalar_file_def andthen_def lift_def vtk_Scalars_def vtk_VtkData_def
      vtk_tofile_def split: option.splits)

lemma call_vec_comp_run:
  assumes "mesh_only G" and "call_convert_field_vec_comp G fld c w = (w', r)"
  shows "keeps_attrs (self w) (self w') \<and> disk w' = disk w \<and> calls w' = calls w @ [VecComp fld c]"
proof -
  from assms(1) have "keeps_attrs (self w) (fst (convert_field_vec_comp G (self w) fld c))"
    by (simp add: mesh_only_def)
  with assms(2) show ?thesis
    by (auto simp: call_convert_field_vec_comp_def split: prod.splits)
qed

lemma call_vec_full_run:
  assumes "mesh_only G" and "call_convert_field_vec_full G fld w = (w', r)"
  shows "keeps_attrs (self w) (self w') \<and> disk w' = disk w \<and> calls w' = calls w @ [VecFull fld]"
proof -
  from assms(1) have "keeps_attrs (self w) (fst (convert_field_vec_full G (self w) fld))"
    by (simp add: mesh_only_def)
  with assms(2) show ?thesis
    by (auto simp: call_convert_field_vec_full_def split: prod.splits)
qed

lemma call_scl_run:
  assumes "mesh_only G" and "call_convert_field_scl G fld w = (w', r)"
  shows "keeps_attrs (self w) (self w') \<and> disk w' = disk w \<and> calls w' = calls w @ [Scl fld]"
proof -
  from assms(1) have "keeps_attrs (self w) (fst (convert_field_scl G (self w) fld))"
    by (simp add: mesh_only_def)
  with assms(2) show ?thesis
    by (auto simp: call_convert_field_scl_def split: prod.splits)
qed

lemma call_species_run:
  assumes "mesh_only G" and "call_convert_species G sp w = (w', r)"
  shows "keeps_attrs (self w) (self w') \<and> disk w' = disk w \<and> calls w' = calls w @ [Species sp]"
proof -
  from assms(1) have "keeps_attrs (self w) (fst (convert_species G (self w) sp))"
    by (simp add: mesh_only_def)
  with assms(2) show ?thesis
    by (auto simp: call_convert_species_def split: prod.splits)
qed

lemma lift_run: "lift x w = (w', r) \<Longrightarrow> w' = w \<and> r = x"
  by (auto simp: lift_def)

lemma vtk_tofile_cases:
  assumes "vtk_tofile G d n fmt w = (w', r)"
  shows "(r = Inr () \<and> w' = w\<lparr>disk := disk w @ [VtkFile n fmt d]\<rparr>) \<or> ((\<exists>e. r = Inl e) \<and> w' = w)"
  using assms by (auto simp: vtk_tofile_def split: option.splits)

lemma andthen_field_type:
  "andthen (\<lambda>w. (w, field_type (self w) fld)) k w =
     (case field_type (self w) fld of Inl e \<Rightarrow> (w, Inl e) | Inr ft \<Rightarrow> k ft w)"
  by (simp add: andthen_def split: sum.splits)

lemma andthen_lift:
  "andthen (lift x) k w = (case x of Inl e \<Rightarrow> (w, Inl e) | Inr v \<Rightarrow> k v w)"
  by (simp add: andthen_def lift_def split: sum.splits)

lemma andthen_field_file_name:
  "andthen (field_file_name f istr) k w = k (path (self w) @ ''vtk_fields_'' @ f @ ''_'' @ istr) w"
  by (simp add: andthen_def field_file_name_eq)

lemma andthen_load_local:
  "andthen (load_local n c) k w =
     (case c of None \<Rightarrow> (w, Inl (UnboundLocalError n)) | Some v \<Rightarrow> k v w)"
  by (simp add: andthen_def load_local_def split: option.splits)

lemma comps_loop_Cons:
  "comps_loop G fmt istr fld (x # xs) c w =
     andthen (call_convert_field_vec_comp G fld x) (\<lambda>res.
     andthen (write_scalar_file G (path (self w) @ ''vtk_fields_'' @ (fld @ x) @ ''_'' @ istr) fmt res)
       (\<lambda>u. comps_loop G fmt istr fld xs (Some x))) w"
  by (simp add: andthen_field_file_name)

lemma fields_separate_Cons:
  "fields_separate G fmt istr (fld # flds) c w =
     (case field_type (self w) fld of
        Inl e \<Rightarrow> (w, Inl e)
      | Inr ft \<Rightarrow>
          if ft = ''vector'' then
            andthen (comps_loop G fmt istr fld [''x'', ''y'', ''z''] c)
              (\<lambda>c'. fields_separate G fmt istr flds c') w
          else if ft = ''scalar'' then
            (case c of
               None \<Rightarrow> (w, Inl (UnboundLocalError ''comp''))
             | Some cv \<Rightarrow>
                 andthen (call_convert_field_vec_comp G fld cv) (\<lambda>res.
                 andthen (write_scalar_file G (path (self w) @ ''vtk_fields_'' @ fld @ ''_'' @ istr) fmt res)
                   (\<lambda>u. fields_separate G fmt istr flds c)) w)
          else fields_separate G fmt istr flds c w)"
  by (simp add: andthen_field_type andthen_field_file_name andthen_load_local
      split: sum.splits option.splits)

lemma fields_common_Cons:
  "fields_common G (fld # flds) cont w =
     (case field_type (self w) fld of
        Inl e \<Rightarrow> (w, Inl e)
      | Inr ft \<Rightarrow>
          if ft = ''vector'' then
            andthen (call_convert_field_vec_full G fld) (\<lambda>res.
            andthen (lift (vtk_Vectors G (fst res) (snd res))) (\<lambda>vecs.
            fields_common G flds (cont @ [vecs]))) w
          else if ft = ''scalar'' then
            andthen (call_convert_field_scl G fld) (\<lambda>res.
            andthen (lift (vtk_Scalars G (fst res) (snd res))) (\<lambda>scl.
            fields_common G flds (cont @ [scl]))) w
          else fields_common G flds cont w)"
  by (simp add: andthen_field_type case_prod_unfold split: sum.splits)

declare comps_loop.simps(2) [simp del]
declare fields_separate.simps(2) [simp del]
declare fields_common.simps(2) [simp del]

lemma fields_common_run:
  assumes "mesh_only G"
  shows "fields_common G flds cont w = (w', r) \<Longrightarrow>
           keeps_attrs (self w) (self w') \<and> disk w' = disk w"
proof (induction flds arbitrary: cont w)
  case Nil
  then show ?case by (auto simp: keeps_attrs_refl)
next
  case (Cons fld flds)
  show ?case
  proof (cases "field_type (self w) fld")
    case (Inl e)
    with Cons.prems show ?thesis
      by (auto simp: fields_common_Cons keeps_attrs_refl)
  next
    case (Inr ft)
    consider (vector) "ft = ''vector''" | (scalar) "ft = ''scalar''"
      | (other) "ft \<noteq> ''vector''" "ft \<noteq> ''scalar''"
      by blast
    then show ?thesis
    proof cases
      case vector
      with Cons.prems Inr have
        "andthen (call_convert_field_vec_full G fld) (\<lambda>res.
         andthen (lift (vtk_Vectors G (fst res) (snd res))) (\<lambda>vecs.
         fields_common G flds (cont @ [vecs]))) w = (w', r)"
        by (simp add: fields_common_Cons)
      then show ?thesis
      proof (cases rule: andthen_cases)
        case (raised e)
        with call_vec_full_run [OF assms] show ?thesis by blast
      next
        case (went_on w1 res)
        from call_vec_full_run [OF assms went_on(1)] have
          k1: "keeps_attrs (self w) (self w1)" and d1: "disk w1 = disk w"
          by simp_all
        obtain fdata fname where res: "res = (fdata, fname)" by (cases res)
        from went_on(2) res have
          "andthen (lift (vtk_Vectors G fdata fname)) (\<lambda>vecs.
             fields_common G flds (cont @ [vecs])) w1 = (w', r)"
          by simp
        then show ?thesis
        proof (cases rule: andthen_cases)
          case (raised e)
          with k1 d1 show ?thesis by (auto dest: lift_run)
        next
          case (went_on w2 vecs)
          then have "w2 = w1" by (auto dest: lift_run)
          with Cons.IH [OF went_on(2)] k1 d1 show ?thesis
            by (auto intro: keeps_attrs_trans)
        qed
      qed
    next
      case scalar
      with Cons.prems Inr have
        "andthen (call_convert_field_scl G fld) (\<lambda>res.
         andthen (lift (vtk_Scalars G (fst res) (snd res))) (\<lambda>scl.
         fields_common G flds (cont @ [scl]))) w = (w', r)"
        by (simp add: fields_common_Cons)
      then show ?thesis
      proof (cases rule: andthen_cases)
        case (raised e)
        with call_scl_run [OF assms] show ?thesis by blast
      next
        case (went_on w1 res)
        from call_scl_run [OF assms went_on(1)] have
          k1: "keeps_attrs (self w) (self w1)" and d1: "disk w1 = disk w"
          by simp_all
        obtain fdata fname where res: "res = (fdata, fname)" by (cases res)
        from went_on(2) res have
          "andthen (lift (vtk_Scalars G fdata fname)) (\<lambda>scl.
             fields_common G flds (cont @ [scl])) w1 = (w', r)"
          by simp
        then show ?thesis
        proof (cases rule: andthen_cases)
          case (raised e)
          with k1 d1 show ?thesis by (auto dest: lift_run)
        next
          case (went_on w2 scl)
          then have "w2 = w1" by (auto dest: lift_run)
          with Cons.IH [OF went_on(2)] k1 d1 show ?thesis
            by (auto intro: keeps_attrs_trans)
        qed
      qed
    next
      case other
      with Cons.prems Inr have "fields_common G flds cont w = (w', r)"
        by (simp add: fields_common_Cons)
      then show ?thesis by (rule Cons.IH)
    qed
  qed
qed

lemma comps_loop_ok:
  assumes "mesh_only G"
  shows "comps_loop G fmt istr fld comps c w = (w', Inr c') \<Longrightarrow>
    keeps_attrs (self w) (self w') \<and>
    c' = (if comps = [] then c else Some (last comps)) \<and>
    calls w' = calls w @ map (VecComp fld) comps \<and>
    (\<exists>new. disk w' = disk w @ new \<and>
       map file_name new =
         map (\<lambda>c. path (self w) @ ''vtk_fields_'' @ fld @ c @ ''_'' @ istr) comps)"
proof (induction comps arbitrary: c w)
  case Nil
  then show ?case by (simp add: keeps_attrs_refl)
next
  case (Cons x xs)
  let ?n = "path (self w) @ ''vtk_fields_'' @ (fld @ x) @ ''_'' @ istr"
  from Cons.prems obtain w1 fdata fname w2 where
    call: "call_convert_field_vec_comp G fld x w = (w1, Inr (fdata, fname))" and
    wr: "write_scalar_file G ?n fmt (fdata, fname) w1 = (w2, Inr ())" and
    rest: "comps_loop G fmt istr fld xs (Some x) w2 = (w', Inr c')"
    by (auto simp: comps_loop_Cons andthen_Inr)
  from call_vec_comp_run [OF assms call] have
    k1: "keeps_attrs (self w) (self w1)" and d1: "disk w1 = disk w" and
    c1: "calls w1 = calls w @ [VecComp fld x]"
    by simp_all
  from write_scalar_file_cases [OF wr] have
    w2: "w2 = w1\<lparr>disk := disk w1 @ [VtkFile ?n fmt (VtkData (grid (self w1)) [Scalars fdata fname])]\<rparr>"
    by simp
  from w2 have s2: "self w2 = self w1" and l2: "calls w2 = calls w1" and
    f2: "disk w2 = disk w1 @ [VtkFile ?n fmt (VtkData (grid (self w1)) [Scalars fdata fname])]"
    by simp_all
  from Cons.IH [OF rest] s2 obtain new where
    k2: "keeps_attrs (self w1) (self w')" and
    c': "c' = (if xs = [] then Some x else Some (last xs))" and
    c2: "calls w' = calls w2 @ map (VecComp fld) xs" and
    d2: "disk w' = disk w2 @ new" and
    n2: "map file_name new = map (\<lambda>c. path (self w1) @ ''vtk_fields_'' @ fld @ c @ ''_'' @ istr) xs"
    by auto
  from k1 have p: "path (self w1) = path (self w)"
    by (simp add: keeps_attrs_def)
  from k1 k2 have "keeps_attrs (self w) (self w')"
    by (rule keeps_attrs_trans)
  moreover from c' have "c' = (if x # xs = [] then c else Some (last (x # xs)))"
    by simp
  moreover from c1 c2 l2 have "calls w' = calls w @ map (VecComp fld) (x # xs)"
    by simp
  moreover from d1 d2 f2 n2 p have
    "\<exists>new. disk w' = disk w @ new \<and>
       map file_name new =
         map (\<lambda>c. path (self w) @ ''vtk_fields_'' @ fld @ c @ ''_'' @ istr) (x # xs)"
    by simp
  ultimately show ?case by blast
qed

lemma keeps_separate_names:
  assumes "keeps_attrs s s'"
  shows "separate_names s' istr flds = separate_names s istr flds"
proof -
  from assms have "field_type s' = field_type s"
    by (rule keeps_field_type)
  moreover from assms have "path s' = path s"
    by (simp add: keeps_attrs_def)
  ultimately show ?thesis
    by (simp add: separate_names_def cong: if_cong)
qed

lemma keeps_separate_calls:
  assumes "keeps_attrs s s'"
  shows "separate_calls s' flds = separate_calls s flds"
proof -
  from assms have "field_type s' = field_type s"
    by (rule keeps_field_type)
  then show ?thesis
    by (simp add: separate_calls_def cong: if_cong)
qed

lemma separate_names_Cons:
  "separate_names s istr (fld # flds) =
     (if field_type s fld = Inr ''vector'' then
        map (\<lambda>c. path s @ ''vtk_fields_'' @ fld @ c @ ''_'' @ istr) [''x'', ''y'', ''z'']
      else if field_type s fld = Inr ''scalar'' then
        [path s @ ''vtk_fields_'' @ fld @ ''_'' @ istr]
      else []) @ separate_names s istr flds"
  by (simp add: separate_names_def)

lemma separate_calls_Cons:
  "separate_calls s (fld # flds) =
     (if field_type s fld = Inr ''vector'' then
        [VecComp fld ''x'', VecComp fld ''y'', VecComp fld ''z'']
      else if field_type s fld = Inr ''scalar'' then [VecComp fld ''z'']
      else []) @ separate_calls s flds"
  by (simp add: separate_calls_def)

lemma fields_separate_ok:
  assumes "mesh_only G"
  shows "fields_separate G fmt istr flds c w = (w', Inr c') \<Longrightarrow> c = None \<or> c = Some ''z'' \<Longrightarrow>
    keeps_attrs (self w) (self w') \<and>
    calls w' = calls w @ separate_calls (self w) flds \<and>
    (\<exists>new. disk w' = disk w @ new \<and> map file_name new = separate_names (self w) istr flds)"
proof (induction flds arbitrary: c w)
  case Nil
  then show ?case by (simp add: keeps_attrs_refl separate_calls_def separate_names_def)
next
  case (Cons fld flds)
  from Cons.prems(1) obtain ft where ft: "field_type (self w) fld = Inr ft"
    by (auto simp: fields_separate_Cons split: sum.splits)
  consider (vector) "ft = ''vector''" | (scalar) "ft = ''scalar''"
    | (other) "ft \<noteq> ''vector''" "ft \<noteq> ''scalar''"
    by blast
  then show ?case
  proof cases
    case vector
    with Cons.prems(1) ft obtain w1 c1 where
      inner: "comps_loop G fmt istr fld [''x'', ''y'', ''z''] c w = (w1, Inr c1)" and
      rest: "fields_separate G fmt istr flds c1 w1 = (w', Inr c')"
      by (auto simp: fields_separate_Cons andthen_Inr)
    from comps_loop_ok [OF assms inner] obtain new1 where
      k1: "keeps_attrs (self w) (self w1)" and c1: "c1 = Some ''z''" and
      l1: "calls w1 = calls w @ map (VecComp fld) [''x'', ''y'', ''z'']" and
      d1: "disk w1 = disk w @ new1" and
      n1: "map file_name new1 =
             map (\<lambda>c. path (self w) @ ''vtk_fields_'' @ fld @ c @ ''_'' @ istr) [''x'', ''y'', ''z'']"
      by auto
    from Cons.IH [OF rest] c1 obtain new2 where
      k2: "keeps_attrs (self w1) (self w')" and
      l2: "calls w' = calls w1 @ separate_calls (self w1) flds" and
      d2: "disk w' = disk w1 @ new2" and
      n2: "map file_name new2 = separate_names (self w1) istr flds"
      by auto
    from k1 k2 have "keeps_attrs (self w) (self w')"
      by (rule keeps_attrs_trans)
    moreover from l1 l2 ft vector have "calls w' = calls w @ separate_calls (self w) (fld # flds)"
      by (simp add: separate_calls_Cons keeps_separate_calls [OF k1])
    moreover from d1 d2 n1 n2 ft vector have
      "disk w' = disk w @ (new1 @ new2) \<and>
       map file_name (new1 @ new2) = separate_names (self w) istr (fld # flds)"
      by (simp add: separate_names_Cons keeps_separate_names [OF k1])
    ultimately show ?thesis by blast
  next
    case scalar
    let ?n = "path (self w) @ ''vtk_fields_'' @ fld @ ''_'' @ istr"
    from scalar Cons.prems(1) ft obtain cv w1 fdata fname w2 where
      cv: "c = Some cv" and
      call: "call_convert_field_vec_comp G fld cv w = (w1, Inr (fdata, fname))" and
      wr: "write_scalar_file G ?n fmt (fdata, fname) w1 = (w2, Inr ())" and
      rest: "fields_separate G fmt istr flds c w2 = (w', Inr c')"
      by (auto simp: fields_separate_Cons andthen_Inr split: option.splits)
    from cv Cons.prems(2) have cz: "cv = ''z''"
      by auto
    from call_vec_comp_run [OF assms call] cz have
      k1: "keeps_attrs (self w) (self w1)" and d1: "disk w1 = disk w" and
      l1: "calls w1 = calls w @ [VecComp fld ''z'']"
      by simp_all
    from write_scalar_file_cases [OF wr] have
      w2: "w2 = w1\<lparr>disk := disk w1 @ [VtkFile ?n fmt (VtkData (grid (self w1)) [Scalars fdata fname])]\<rparr>"
      by simp
    let ?f = "VtkFile ?n fmt (VtkData (grid (self w1)) [Scalars fdata fname])"
    from w2 have s2: "self w2 = self w1" and c2: "calls w2 = calls w1" and
      f2: "disk w2 = disk w1 @ [?f]"
      by simp_all
    from Cons.IH [OF rest Cons.prems(2)] s2 obtain new2 where
      k2: "keeps_attrs (self w1) (self w')" and
      l2: "calls w' = calls w2 @ separate_calls (self w1) flds" and
      d2: "disk w' = disk w2 @ new2" and
      n2: "map file_name new2 = separate_names (self w1) istr flds"
      by auto
    from k1 k2 have "keeps_attrs (self w) (self w')"
      by (rule keeps_attrs_trans)
    moreover from l1 l2 c2 ft scalar have "calls w' = calls w @ separate_calls (self w) (fld # flds)"
      by (simp add: separate_calls_Cons keeps_separate_calls [OF k1])
    moreover from d1 d2 n2 f2 ft scalar have
      "disk w' = disk w @ (?f # new2) \<and>
       map file_name (?f # new2) = separate_names (self w) istr (fld # flds)"
      by (simp add: separate_names_Cons keeps_separate_names [OF k1])
    ultimately show ?thesis by blast
  next
    case other
    with Cons.prems(1) ft have rest: "fields_separate G fmt istr flds c w = (w', Inr c')"
      by (auto simp: fields_separate_Cons)
    from Cons.IH [OF rest Cons.prems(2)] ft other show ?thesis
      by (simp add: separate_calls_Cons separate_names_Cons)
  qed
qed

lemma write_scalar_file_run:
  assumes "write_scalar_file G n fmt res w = (w', r)"
  shows "self w' = self w \<and> calls w' = calls w"
proof -
  obtain fdata fname where "res = (fdata, fname)" by (cases res)
  with write_scalar_file_cases [of G n fmt fdata fname w w' r] assms show ?thesis
    by auto
qed

lemma comps_loop_run:
  assumes "mesh_only G"
  shows "comps_loop G fmt istr fld comps c w = (w', r) \<Longrightarrow>
    keeps_attrs (self w) (self w') \<and>
    (\<exists>cs. calls w' = calls w @ cs \<and> prefix cs (map (VecComp fld) comps))"
proof (induction comps arbitrary: c w)
  case Nil
  then show ?case by (auto simp: keeps_attrs_refl)
next
  case (Cons x xs)
  let ?n = "path (self w) @ ''vtk_fields_'' @ (fld @ x) @ ''_'' @ istr"
  from Cons.prems have
    run: "andthen (call_convert_field_vec_comp G fld x) (\<lambda>res.
          andthen (write_scalar_file G ?n fmt res) (\<lambda>u.
          comps_loop G fmt istr fld xs (Some x))) w = (w', r)"
    by (simp only: comps_loop_Cons)
  from run show ?case
  proof (cases rule: andthen_cases)
    case (raised e)
    with call_vec_comp_run [OF assms] show ?thesis by fastforce
  next
    case (went_on w1 res)
    from call_vec_comp_run [OF assms went_on(1)] have
      k1: "keeps_attrs (self w) (self w1)" and l1: "calls w1 = calls w @ [VecComp fld x]"
      by simp_all
    from went_on(2) show ?thesis
    proof (cases rule: andthen_cases)
      case (raised e)
      with write_scalar_file_run [of G ?n fmt res w1 w' "Inl e"] k1 l1
      show ?thesis by auto
    next
      case (went_on w2 u)
      with write_scalar_file_run [of G ?n fmt res w1 w2 "Inr u"]
      have s2: "self w2 = self w1" and l2: "calls w2 = calls w1" by auto
      from Cons.IH [OF went_on(2)] s2 obtain cs where
        "keeps_attrs (self w1) (self w')" and "calls w' = calls w2 @ cs" and
        "prefix cs (map (VecComp fld) xs)"
        by auto
      with k1 l1 l2 show ?thesis
        by (auto intro: keeps_attrs_trans)
    qed
  qed
qed

lemma fields_separate_run:
  assumes "mesh_only G"
  shows "fields_separate G fmt istr flds c w = (w', r) \<Longrightarrow> c = None \<or> c = Some ''z'' \<Longrightarrow>
    keeps_attrs (self w) (self w') \<and>
    (\<exists>cs. calls w' = calls w @ cs \<and> prefix cs (separate_calls (self w) flds))"
proof (induction flds arbitrary: c w)
  case Nil
  then show ?case by (auto simp: keeps_attrs_refl)
next
  case (Cons fld flds)
  show ?case
  proof (cases "field_type (self w) fld")
    case (Inl e)
    with Cons.prems show ?thesis
      by (auto simp: fields_separate_Cons keeps_attrs_refl)
  next
    case (Inr ft)
    consider (vector) "ft = ''vector''" | (scalar) "ft = ''scalar''"
      | (other) "ft \<noteq> ''vector''" "ft \<noteq> ''scalar''"
      by blast
    then show ?thesis
    proof cases
      case vector
      with Cons.prems Inr have
        "andthen (comps_loop G fmt istr fld [''x'', ''y'', ''z''] c)
           (\<lambda>c'. fields_separate G fmt istr flds c') w = (w', r)"
        by (simp add: fields_separate_Cons)
      then show ?thesis
      proof (cases rule: andthen_cases)
        case (raised e)
        from comps_loop_run [OF assms raised(1)] obtain cs where
          "keeps_attrs (self w) (self w')" and "calls w' = calls w @ cs" and
          "prefix cs [VecComp fld ''x'', VecComp fld ''y'', VecComp fld ''z'']"
          by auto
        with Inr vector show ?thesis
          by (auto simp: separate_calls_Cons intro: prefix_order.trans)
      next
        case (went_on w1 c1)
        from comps_loop_ok [OF assms went_on(1)] have
          k1: "keeps_attrs (self w) (self w1)" and c1: "c1 = Some ''z''" and
          l1: "calls w1 = calls w @ [VecComp fld ''x'', VecComp fld ''y'', VecComp fld ''z'']"
          by auto
        from Cons.IH [OF went_on(2)] c1 obtain cs where
          "keeps_attrs (self w1) (self w')" and "calls w' = calls w1 @ cs" and
          "prefix cs (separate_calls (self w1) flds)"
          by auto
        with k1 l1 Inr vector show ?thesis
          by (auto simp: separate_calls_Cons keeps_separate_calls [OF k1] intro: keeps_attrs_trans)
      qed
    next
      case scalar
      let ?n = "path (self w) @ ''vtk_fields_'' @ fld @ ''_'' @ istr"
      show ?thesis
      proof (cases c)
        case None
        with scalar Cons.prems Inr show ?thesis
          by (auto simp: fields_separate_Cons keeps_attrs_refl)
      next
        case (Some cv)
        with Cons.prems(2) have cz: "cv = ''z''" by simp
        from Some scalar Cons.prems Inr have
          "andthen (call_convert_field_vec_comp G fld cv) (\<lambda>res.
           andthen (write_scalar_file G ?n fmt res) (\<lambda>u.
           fields_separate G fmt istr flds c)) w = (w', r)"
          by (simp add: fields_separate_Cons)
        then show ?thesis
        proof (cases rule: andthen_cases)
          case (raised e)
          with call_vec_comp_run [OF assms] cz Inr scalar show ?thesis
            by (fastforce simp: separate_calls_Cons)
        next
          case (went_on w1 res)
          from call_vec_comp_run [OF assms went_on(1)] cz have
            k1: "keeps_attrs (self w) (self w1)" and l1: "calls w1 = calls w @ [VecComp fld ''z'']"
            by simp_all
          from went_on(2) show ?thesis
          proof (cases rule: andthen_cases)
            case (raised e)
            with write_scalar_file_run [of G ?n fmt res w1 w' "Inl e"] k1 l1 Inr scalar
            show ?thesis by (auto simp: separate_calls_Cons)
          next
            case (went_on w2 u)
            with write_scalar_file_run [of G ?n fmt res w1 w2 "Inr u"]
            have s2: "self w2 = self w1" and l2: "calls w2 = calls w1" by auto
            from Cons.IH [OF went_on(2) Cons.prems(2)] s2 obtain cs where
              "keeps_attrs (self w1) (self w')" and "calls w' = calls w2 @ cs" and
              "prefix cs (separate_calls (self w1) flds)"
              by auto
            with k1 l1 l2 Inr scalar show ?thesis
              by (auto simp: separate_calls_Cons keeps_separate_calls [OF k1]
                  intro: keeps_attrs_trans)
          qed
        qed
      qed
    next
      case other
      with Cons.prems Inr have "fields_separate G fmt istr flds c w = (w', r)"
        by (simp add: fields_separate_Cons)
      from Cons.IH [OF this Cons.prems(2)] Inr other show ?thesis
        by (simp add: separate_calls_Cons)
    qed
  qed
qed

section \<open>Files, helper calls and the mesh cache of write_fields_vtk\<close>

lemma register_fields_reads:
  "ts (register_fields it zfix nthv cm s) = ts s"
  "path (register_fields it zfix nthv cm s) = path s"
  "iteration (register_fields it zfix nthv cm s) = it"
  "CommonMesh (register_fields it zfix nthv cm s) = cm"
  "field_type (register_fields it zfix nthv cm s) = field_type s"
  by (auto simp: register_fields_def field_type_def)

lemma separate_calls_register:
  "separate_calls (register_fields it zfix nthv cm s) flds = separate_calls s flds"
  by (simp add: separate_calls_def register_fields_reads cong: if_cong)

lemma separate_names_register:
  "separate_names (register_fields it zfix nthv cm s) istr flds = separate_names s istr flds"
  by (simp add: separate_names_def register_fields_reads cong: if_cong)

lemma write_fields_vtk_separate:
  "write_fields_vtk G flds it fmt zfix nthv False w =
     andthen (fields_separate G fmt (iteration_string it)
                (requested flds (avail_fields (ts (self w)))) None)
       (\<lambda>last_comp. lift (Inr ()))
       (w\<lparr>self := register_fields it zfix nthv False (self w)\<rparr>)"
  by (simp add: write_fields_vtk_def Let_def register_fields_reads)

lemma write_fields_vtk_common:
  "write_fields_vtk G flds it fmt zfix nthv True w =
     andthen (fields_common G (requested flds (avail_fields (ts (self w)))) []) (\<lambda>vtk_container.
     andthen (\<lambda>w. (w, vtk_VtkData G (grid (self w)) vtk_container)) (\<lambda>d.
     andthen (\<lambda>w. (w, Inr (path (self w) @ ''vtk_fields_'' @ iteration_string it))) (\<lambda>name.
     vtk_tofile G d name fmt)))
       (w\<lparr>self := register_fields it zfix nthv True (self w)\<rparr>)"
  by (simp add: write_fields_vtk_def Let_def register_fields_reads)

text \<open>
  C1: in \<open>write_fields_vtk\<close> with \<open>CommonMesh=False\<close> the scalar branch does not
  perform a scalar extraction: the helper calls of a run are, in order, those listed
  by \<open>separate_calls\<close>, where each scalar-typed field gets a call of
  \<open>_convert_field_vec_comp\<close> with the component \<open>z\<close> that the last loop over a vector
  field left in \<open>comp\<close>. A run that raises has made an initial part of these calls,
  a run that completes has made all of them. The helpers are taken to touch only the
  mesh cache.
\<close>

theorem separate_scalar_reuses_component:
  assumes "mesh_only G"
    and "write_fields_vtk G flds it fmt zfix nthv False w = (w', r)"
  shows "\<exists>cs. calls w' = calls w @ cs \<and>
           prefix cs (separate_calls (self w) (requested flds (avail_fields (ts (self w))))) \<and>
           (r = Inr () \<longrightarrow>
              cs = separate_calls (self w) (requested flds (avail_fields (ts (self w)))))"
proof -
  let ?w1 = "w\<lparr>self := register_fields it zfix nthv False (self w)\<rparr>"
  let ?flds = "requested flds (avail_fields (ts (self w)))"
  from assms(2) have run:
    "andthen (fields_separate G fmt (iteration_string it) ?flds None)
       (\<lambda>last_comp. lift (Inr ())) ?w1 = (w', r)"
    by (simp only: write_fields_vtk_separate)
  from run show ?thesis
  proof (cases rule: andthen_cases)
    case (raised e)
    from fields_separate_run [OF assms(1) raised(1)] raised(2) show ?thesis
      by (auto simp: separate_calls_register)
  next
    case (went_on w2 c)
    then have "w2 = w'" by (auto dest: lift_run)
    with went_on(1) have ok: "fields_separate G fmt (iteration_string it) ?flds None ?w1 = (w', Inr c)"
      by simp
    from fields_separate_ok [OF assms(1) ok] show ?thesis
      by (auto simp: separate_calls_register)
  qed
qed

lemma length_separate_names:
  "length (separate_names s istr flds) =
     length (filter (\<lambda>f. field_type s f = Inr ''scalar'') flds) +
     3 * length (filter (\<lambda>f. field_type s f = Inr ''vector'') flds)"
  by (induction flds) (auto simp: separate_names_Cons, simp add: separate_names_def)

text \<open>
  C2: a call of \<open>write_fields_vtk\<close> that completes without an exception has written,
  with \<open>CommonMesh\<close> true, exactly one file, named \<open>vtk_fields_<iter7>\<close> under the
  output path; with \<open>CommonMesh\<close> false, one file \<open>vtk_fields_<field>_<iter7>\<close> for each
  scalar-typed field and the three files \<open>vtk_fields_<field><x|y|z>_<iter7>\<close> for each
  vector-typed field, in the order of the field list, and nothing else. \<open><iter7>\<close> is
  \<open>iteration_string\<close> of the iteration. The helpers are taken to touch only the mesh
  cache.
\<close>

theorem write_fields_vtk_files:
  assumes "mesh_only G"
    and "write_fields_vtk G flds it fmt zfix nthv cm w = (w', Inr ())"
  shows "\<exists>new. disk w' = disk w @ new \<and>
           (if cm then
              map file_name new = [path (self w) @ ''vtk_fields_'' @ iteration_string it]
            else
              map file_name new =
                separate_names (self w) (iteration_string it)
                  (requested flds (avail_fields (ts (self w)))) \<and>
              length new =
                length (filter (\<lambda>f. field_type (self w) f = Inr ''scalar'')
                          (requested flds (avail_fields (ts (self w))))) +
                3 * length (filter (\<lambda>f. field_type (self w) f = Inr ''vector'')
                              (requested flds (avail_fields (ts (self w))))))"
proof (cases cm)
  case False
  let ?w1 = "w\<lparr>self := register_fields it zfix nthv False (self w)\<rparr>"
  let ?flds = "requested flds (avail_fields (ts (self w)))"
  from assms(2) False obtain c where
    ok: "fields_separate G fmt (iteration_string it) ?flds None ?w1 = (w', Inr c)"
    by (auto simp: write_fields_vtk_separate andthen_Inr dest: lift_run)
  from fields_separate_ok [OF assms(1) ok] obtain new where
    d: "disk w' = disk w @ new" and
    n: "map file_name new = separate_names (self w) (iteration_string it) ?flds"
    by (auto simp: separate_names_register)
  from n have "length new = length (separate_names (self w) (iteration_string it) ?flds)"
    by (metis length_map)
  with d n False show ?thesis
    by (auto simp: length_separate_names)
next
  case True
  let ?w1 = "w\<lparr>self := register_fields it zfix nthv True (self w)\<rparr>"
  let ?flds = "requested flds (avail_fields (ts (self w)))"
  from assms(2) True obtain w2 cont d where
    loop: "fields_common G ?flds [] ?w1 = (w2, Inr cont)" and
    wr: "vtk_tofile G d (path (self w2) @ ''vtk_fields_'' @ iteration_string it) fmt w2 = (w', Inr ())"
    by (auto simp: write_fields_vtk_common andthen_Inr)
  from fields_common_run [OF assms(1) loop] have
    p: "path (self w2) = path (self w)" and d2: "disk w2 = disk w"
    by (auto simp: keeps_attrs_def register_fields_reads)
  from vtk_tofile_cases [OF wr] have
    "disk w' = disk w2 @ [VtkFile (path (self w2) @ ''vtk_fields_'' @ iteration_string it) fmt d]"
    by auto
  with p d2 True show ?thesis by simp
qed

lemma unrecognised_register:
  "unrecognised (register_fields it zfix nthv cm s) = unrecognised s"
  by (rule ext) (simp add: unrecognised_def register_fields_reads)

lemma fields_separate_skip:
  "\<forall>f \<in> set pre. unrecognised (self w) f \<Longrightarrow>
   fields_separate G fmt istr (pre @ rest) c w = fields_separate G fmt istr rest c w"
  by (induction pre) (auto simp: fields_separate_Cons unrecognised_def split: sum.splits)

text \<open>
  C9: in \<open>write_fields_vtk\<close> with \<open>CommonMesh=False\<close>, when a scalar-typed field is
  reached and no vector-typed field came before it (the fields before it, if any, are
  of unrecognised types), the call raises \<open>UnboundLocalError\<close>, a \<open>NameError\<close>, for the
  variable \<open>comp\<close>; no helper has been called and no file written.
\<close>

theorem scalar_before_vector_raises:
  assumes "requested flds (avail_fields (ts (self w))) = pre @ fld # post"
    and "\<forall>f \<in> set pre. unrecognised (self w) f"
    and "field_type (self w) fld = Inr ''scalar''"
  shows "write_fields_vtk G flds it fmt zfix nthv False w =
           (w\<lparr>self := register_fields it zfix nthv False (self w)\<rparr>,
            Inl (UnboundLocalError ''comp'')) \<and>
         is_NameError (UnboundLocalError ''comp'')"
proof -
  let ?w1 = "w\<lparr>self := register_fields it zfix nthv False (self w)\<rparr>"
  from assms(2) have "\<forall>f \<in> set pre. unrecognised (self ?w1) f"
    by (simp add: unrecognised_register)
  then have "fields_separate G fmt (iteration_string it) (pre @ fld # post) None ?w1 =
             fields_separate G fmt (iteration_string it) (fld # post) None ?w1"
    by (rule fields_separate_skip)
  also from assms(3) have "\<dots> = (?w1, Inl (UnboundLocalError ''comp''))"
    by (simp add: fields_separate_Cons register_fields_reads)
  finally show ?thesis
    using assms(1) by (simp add: write_fields_vtk_separate andthen_def is_NameError_def)
qed

text \<open>
  C5: \<open>write_fields_vtk\<close> sets \<open>self.grid\<close> to \<open>None\<close> before it processes any field:
  whatever mesh the instance held before the call, the call behaves as if it had held
  none, so no mesh is carried over from an earlier call. The instance has the single
  slot \<open>grid\<close> for a mesh, which is empty once the parameters are registered.
\<close>

theorem write_fields_vtk_resets_grid:
  "write_fields_vtk G flds it fmt zfix nthv cm (w\<lparr>self := (self w)\<lparr>grid := g\<rparr>\<rparr>) =
   write_fields_vtk G flds it fmt zfix nthv cm (w\<lparr>self := (self w)\<lparr>grid := None\<rparr>\<rparr>) \<and>
   grid (register_fields it zfix nthv cm (self w)) = None"
  by (simp add: write_fields_vtk_def register_fields_def)

lemma G0_mesh_only: "mesh_only G0"
  by (simp add: mesh_only_def G0_def keeps_attrs_def mesh0_def)

lemma iteration_string_3: "iteration_string 3 = ''0000003''"
  by (simp add: iteration_string_def py_str_def pad7.simps str_nat.simps)

lemmas G0_run_defs =
  requested_def andthen_def lift_def field_type_def getitem_def G0_def w0_def self0_def ts0_def
  mesh0_def register_fields_def field_file_name_def call_convert_field_vec_comp_def
  call_convert_field_vec_full_def call_convert_field_scl_def
  write_scalar_file_def vtk_Scalars_def vtk_Vectors_def vtk_VtkData_def vtk_tofile_def load_local_def
  fields_separate.simps comps_loop.simps fields_common.simps

lemma run_separate_ok:
  "snd (write_fields_vtk G0 (Some [''E'', ''rho'']) 3 ''binary'' None 24 False w0) = Inr ()"
  by (simp add: write_fields_vtk_def iteration_string_3 G0_run_defs)

lemma run_common_ok:
  "snd (write_fields_vtk G0 None 3 ''binary'' None 24 True w0) = Inr ()"
  by (simp add: write_fields_vtk_def iteration_string_3 G0_run_defs)

lemma field_types0:
  "field_type self0 ''E'' = Inr ''vector''"
  "field_type self0 ''rho'' = Inr ''scalar''"
  "field_type self0 ''J'' = Inr ''tensor''"
  "field_type self0 ''B'' = Inl (KeyError ''B'')"
  by (simp_all add: field_type_def getitem_def self0_def ts0_def)

theorem separate_scalar_reuses_component_witness:
  "mesh_only G0 \<and>
   snd (write_fields_vtk G0 (Some [''E'', ''rho'']) 3 ''binary'' None 24 False w0) = Inr () \<and>
   calls (fst (write_fields_vtk G0 (Some [''E'', ''rho'']) 3 ''binary'' None 24 False w0)) =
     [VecComp ''E'' ''x'', VecComp ''E'' ''y'', VecComp ''E'' ''z'', VecComp ''rho'' ''z'']"
proof -
  let ?run = "write_fields_vtk G0 (Some [''E'', ''rho'']) 3 ''binary'' None 24 False w0"
  have "?run = (fst ?run, snd ?run)" by simp
  from separate_scalar_reuses_component [OF G0_mesh_only this] run_separate_ok
  have "calls (fst ?run) = calls w0 @ separate_calls (self w0) [''E'', ''rho'']"
    by (auto simp: requested_def)
  also have "\<dots> = [VecComp ''E'' ''x'', VecComp ''E'' ''y'', VecComp ''E'' ''z'', VecComp ''rho'' ''z'']"
    by (simp add: separate_calls_def w0_def field_types0)
  finally show ?thesis
    using G0_mesh_only run_separate_ok by simp
qed

theorem write_fields_vtk_files_witness:
  "mesh_only G0 \<and>
   snd (write_fields_vtk G0 (Some [''E'', ''rho'']) 3 ''binary'' None 24 False w0) = Inr () \<and>
   map file_name (disk (fst (write_fields_vtk G0 (Some [''E'', ''rho'']) 3 ''binary'' None 24 False w0))) =
     [''out/vtk_fields_Ex_0000003'', ''out/vtk_fields_Ey_0000003'', ''out/vtk_fields_Ez_0000003'',
      ''out/vtk_fields_rho_0000003''] \<and>
   snd (write_fields_vtk G0 None 3 ''binary'' None 24 True w0) = Inr () \<and>
   map file_name (disk (fst (write_fields_vtk G0 None 3 ''binary'' None 24 True w0))) =
     [''out/vtk_fields_0000003'']"
proof -
  let ?sep = "write_fields_vtk G0 (Some [''E'', ''rho'']) 3 ''binary'' None 24 False w0"
  let ?com = "write_fields_vtk G0 None 3 ''binary'' None 24 True w0"
  have "?sep = (fst ?sep, Inr ())"
    using run_separate_ok by (metis prod.collapse)
  from write_fields_vtk_files [OF G0_mesh_only this]
  have "map file_name (disk (fst ?sep)) =
          separate_names (self w0) (iteration_string 3) [''E'', ''rho'']"
    by (auto simp: requested_def w0_def)
  then have sep: "map file_name (disk (fst ?sep)) =
     [''out/vtk_fields_Ex_0000003'', ''out/vtk_fields_Ey_0000003'', ''out/vtk_fields_Ez_0000003'',
      ''out/vtk_fields_rho_0000003'']"
    by (simp add: separate_names_def w0_def field_types0 iteration_string_3) (simp add: self0_def)
  have "?com = (fst ?com, Inr ())"
    using run_common_ok by (metis prod.collapse)
  from write_fields_vtk_files [OF G0_mesh_only this]
  have "map file_name (disk (fst ?com)) = [''out/vtk_fields_0000003'']"
    by (auto simp: w0_def iteration_string_3 self0_def)
  with sep show ?thesis
    using G0_mesh_only run_separate_ok run_common_ok by simp
qed

theorem scalar_before_vector_raises_witness:
  "requested (Some [''J'', ''rho'', ''E'']) (avail_fields (ts (self w0))) = [''J''] @ ''rho'' # [''E''] \<and>
   unrecognised (self w0) ''J'' \<and>
   field_type (self w0) ''rho'' = Inr ''scalar'' \<and>
   snd (write_fields_vtk G0 (Some [''J'', ''rho'', ''E'']) 3 ''binary'' None 24 False w0) =
     Inl (UnboundLocalError ''comp'') \<and>
   disk (fst (write_fields_vtk G0 (Some [''J'', ''rho'', ''E'']) 3 ''binary'' None 24 False w0)) = []"
proof -
  have a: "requested (Some [''J'', ''rho'', ''E'']) (avail_fields (ts (self w0))) =
             [''J''] @ ''rho'' # [''E'']"
    by (simp add: requested_def)
  have b: "\<forall>f \<in> set [''J'']. unrecognised (self w0) f"
    by (simp add: unrecognised_def w0_def field_types0)
  have c: "field_type (self w0) ''rho'' = Inr ''scalar''"
    by (simp add: w0_def field_types0)
  from scalar_before_vector_raises [OF a b c, of G0 3 "''binary''" None 24] a b c
  show ?thesis by (simp add: w0_def)
qed

section \<open>Skipped and absent fields\<close>

lemma keeps_unrecognised: "keeps_attrs s s' \<Longrightarrow> unrecognised s' = unrecognised s"
  by (rule ext) (simp add: unrecognised_def keeps_field_type)

lemma fields_separate_filter:
  assumes "mesh_only G"
  shows "fields_separate G fmt istr flds c w =
         fields_separate G fmt istr (filter (\<lambda>f. \<not> unrecognised (self w) f) flds) c w"
proof (induction flds arbitrary: c w)
  case Nil
  show ?case by simp
next
  case (Cons fld flds)
  let ?keep = "\<lambda>w. filter (\<lambda>f. \<not> unrecognised (self w) f) flds"
  have later: "fields_separate G fmt istr flds c' w' = fields_separate G fmt istr (?keep w) c' w'"
    if "keeps_attrs (self w) (self w')" for c' w'
    using Cons.IH [of c' w'] keeps_unrecognised [OF that] by simp
  show ?case
  proof (cases "unrecognised (self w) fld")
    case True
    then have "fields_separate G fmt istr (fld # flds) c w = fields_separate G fmt istr flds c w"
      by (auto simp: fields_separate_Cons unrecognised_def split: sum.splits)
    with True Cons.IH [of c w] show ?thesis by simp
  next
    case False
    have "fields_separate G fmt istr (fld # flds) c w =
          fields_separate G fmt istr (fld # ?keep w) c w"
    proof (cases "field_type (self w) fld")
      case (Inl e)
      then show ?thesis by (simp add: fields_separate_Cons)
    next
      case (Inr ft)
      with False consider (vector) "ft = ''vector''" | (scalar) "ft = ''scalar''"
        by (auto simp: unrecognised_def)
      then show ?thesis
      proof cases
        case vector
        have "andthen (comps_loop G fmt istr fld [''x'', ''y'', ''z''] c)
                (\<lambda>c'. fields_separate G fmt istr flds c') w =
              andthen (comps_loop G fmt istr fld [''x'', ''y'', ''z''] c)
                (\<lambda>c'. fields_separate G fmt istr (?keep w) c') w"
        proof (rule andthen_cong_run)
          fix w1 c1
          assume "comps_loop G fmt istr fld [''x'', ''y'', ''z''] c w = (w1, Inr c1)"
          from comps_loop_run [OF assms this] have "keeps_attrs (self w) (self w1)" by simp
          then show "fields_separate G fmt istr flds c1 w1 =
                     fields_separate G fmt istr (?keep w) c1 w1"
            by (rule later)
        qed
        with Inr vector show ?thesis by (simp add: fields_separate_Cons)
      next
        case scalar
        show ?thesis
        proof (cases c)
          case None
          with Inr scalar show ?thesis by (simp add: fields_separate_Cons)
        next
          case (Some cv)
          let ?n = "path (self w) @ ''vtk_fields_'' @ fld @ ''_'' @ istr"
          have "andthen (call_convert_field_vec_comp G fld cv) (\<lambda>res.
                  andthen (write_scalar_file G ?n fmt res) (\<lambda>u.
                  fields_separate G fmt istr flds c)) w =
                andthen (call_convert_field_vec_comp G fld cv) (\<lambda>res.
                  andthen (write_scalar_file G ?n fmt res) (\<lambda>u.
                  fields_separate G fmt istr (?keep w) c)) w"
          proof (rule andthen_cong_run)
            fix w1 res
            assume "call_convert_field_vec_comp G fld cv w = (w1, Inr res)"
            from call_vec_comp_run [OF assms this] have k1: "keeps_attrs (self w) (self w1)"
              by simp
            show "andthen (write_scalar_file G ?n fmt res)
                    (\<lambda>u. fields_separate G fmt istr flds c) w1 =
                  andthen (write_scalar_file G ?n fmt res)
                    (\<lambda>u. fields_separate G fmt istr (?keep w) c) w1"
            proof (rule andthen_cong_run)
              fix w2 u
              assume "write_scalar_file G ?n fmt res w1 = (w2, Inr u)"
              from write_scalar_file_run [OF this] k1 have "keeps_attrs (self w) (self w2)"
                by simp
              then show "fields_separate G fmt istr flds c w2 =
                         fields_separate G fmt istr (?keep w) c w2"
                by (rule later)
            qed
          qed
          with Inr scalar Some show ?thesis by (simp add: fields_separate_Cons)
        qed
      qed
    qed
    with False show ?thesis by simp
  qed
qed

lemma fields_common_filter:
  assumes "mesh_only G"
  shows "fields_common G flds cont w =
         fields_common G (filter (\<lambda>f. \<not> unrecognised (self w) f) flds) cont w"
proof (induction flds arbitrary: cont w)
  case Nil
  show ?case by simp
next
  case (Cons fld flds)
  let ?keep = "\<lambda>w. filter (\<lambda>f. \<not> unrecognised (self w) f) flds"
  have later: "fields_common G flds cont' w' = fields_common G (?keep w) cont' w'"
    if "keeps_attrs (self w) (self w')" for cont' w'
    using Cons.IH [of cont' w'] keeps_unrecognised [OF that] by simp
  show ?case
  proof (cases "unrecognised (self w) fld")
    case True
    then have "fields_common G (fld # flds) cont w = fields_common G flds cont w"
      by (auto simp: fields_common_Cons unrecognised_def split: sum.splits)
    with True Cons.IH [of cont w] show ?thesis by simp
  next
    case False
    have "fields_common G (fld # flds) cont w = fields_common G (fld # ?keep w) cont w"
    proof (cases "field_type (self w) fld")
      case (Inl e)
      then show ?thesis by (simp add: fields_common_Cons)
    next
      case (Inr ft)
      with False consider (vector) "ft = ''vector''" | (scalar) "ft = ''scalar''"
        by (auto simp: unrecognised_def)
      then show ?thesis
      proof cases
        case vector
        have "andthen (call_convert_field_vec_full G fld) (\<lambda>res.
                andthen (lift (vtk_Vectors G (fst res) (snd res))) (\<lambda>vecs.
                fields_common G flds (cont @ [vecs]))) w =
              andthen (call_convert_field_vec_full G fld) (\<lambda>res.
                andthen (lift (vtk_Vectors G (fst res) (snd res))) (\<lambda>vecs.
                fields_common G (?keep w) (cont @ [vecs]))) w"
        proof (rule andthen_cong_run)
          fix w1 res
          assume "call_convert_field_vec_full G fld w = (w1, Inr res)"
          from call_vec_full_run [OF assms this] have k1: "keeps_attrs (self w) (self w1)"
            by simp
          show "andthen (lift (vtk_Vectors G (fst res) (snd res)))
                  (\<lambda>vecs. fields_common G flds (cont @ [vecs])) w1 =
                andthen (lift (vtk_Vectors G (fst res) (snd res)))
                  (\<lambda>vecs. fields_common G (?keep w) (cont @ [vecs])) w1"
            by (simp add: andthen_lift later [OF k1] split: sum.splits)
        qed
        with Inr vector show ?thesis by (simp add: fields_common_Cons)
      next
        case scalar
        have "andthen (call_convert_field_scl G fld) (\<lambda>res.
                andthen (lift (vtk_Scalars G (fst res) (snd res))) (\<lambda>scl.
                fields_common G flds (cont @ [scl]))) w =
              andthen (call_convert_field_scl G fld) (\<lambda>res.
                andthen (lift (vtk_Scalars G (fst res) (snd res))) (\<lambda>scl.
                fields_common G (?keep w) (cont @ [scl]))) w"
        proof (rule andthen_cong_run)
          fix w1 res
          assume "call_convert_field_scl G fld w = (w1, Inr res)"
          from call_scl_run [OF assms this] have k1: "keeps_attrs (self w) (self w1)"
            by simp
          show "andthen (lift (vtk_Scalars G (fst res) (snd res)))
                  (\<lambda>scl. fields_common G flds (cont @ [scl])) w1 =
                andthen (lift (vtk_Scalars G (fst res) (snd res)))
                  (\<lambda>scl. fields_common G (?keep w) (cont @ [scl])) w1"
            by (simp add: andthen_lift later [OF k1] split: sum.splits)
        qed
        with Inr scalar show ?thesis by (simp add: fields_common_Cons)
      qed
    qed
    with False show ?thesis by simp
  qed
qed

text \<open>
  C4: a field whose metadata declares a type that is neither \<open>scalar\<close> nor \<open>vector\<close>
  is skipped silently, in both modes of \<open>write_fields_vtk\<close>: the call does exactly
  what it does on the field list without such fields. It returns the same result,
  writes the same files, makes the same helper calls and leaves the same instance, so
  the field yields no artifact and no error and the other fields are processed as
  usual. The helpers are taken to touch only the mesh cache.
\<close>

theorem unrecognised_fields_skipped:
  assumes "mesh_only G"
  shows "write_fields_vtk G flds it fmt zfix nthv cm w =
         write_fields_vtk G
           (Some (filter (\<lambda>f. \<not> unrecognised (self w) f)
                    (requested flds (avail_fields (ts (self w))))))
           it fmt zfix nthv cm w"
proof (cases cm)
  case True
  with fields_common_filter [OF assms, of
      "requested flds (avail_fields (ts (self w)))" "[]"
      "w\<lparr>self := register_fields it zfix nthv True (self w)\<rparr>"]
  show ?thesis
    by (simp add: write_fields_vtk_common andthen_def unrecognised_register requested_def)
next
  case False
  with fields_separate_filter [OF assms, of fmt "iteration_string it"
      "requested flds (avail_fields (ts (self w)))" None
      "w\<lparr>self := register_fields it zfix nthv False (self w)\<rparr>"]
  show ?thesis
    by (simp add: write_fields_vtk_separate andthen_def unrecognised_register requested_def)
qed

lemma andthen_return: "andthen (\<lambda>w. (w, Inr x)) f = f x"
  by (rule ext) (simp add: andthen_def)

lemma fields_separate_Nil_fun: "fields_separate G fmt istr [] c = (\<lambda>w. (w, Inr c))"
  by (rule ext) simp

lemma fields_separate_Cons_fun:
  "fields_separate G fmt istr (fld # flds) c =
     andthen (\<lambda>w. (w, field_type (self w) fld)) (\<lambda>ft.
       if ft = ''vector'' then
         andthen (comps_loop G fmt istr fld [''x'', ''y'', ''z''] c) (\<lambda>c'.
         fields_separate G fmt istr flds c')
       else if ft = ''scalar'' then
         andthen (field_file_name fld istr) (\<lambda>file_name'.
         andthen (load_local ''comp'' c) (\<lambda>cv.
         andthen (call_convert_field_vec_comp G fld cv) (\<lambda>res.
         andthen (write_scalar_file G file_name' fmt res) (\<lambda>u.
         fields_separate G fmt istr flds c))))
       else fields_separate G fmt istr flds c)"
  by (rule ext) (simp add: fields_separate.simps)

lemma fields_separate_append:
  "fields_separate G fmt istr (xs @ ys) c =
     andthen (fields_separate G fmt istr xs c) (fields_separate G fmt istr ys)"
proof (induction xs arbitrary: c)
  case Nil
  show ?case by (simp add: fields_separate_Nil_fun andthen_return)
next
  case (Cons x xs)
  show ?case
    by (simp add: fields_separate_Cons_fun andthen_assoc if_distrib [of "\<lambda>m. andthen m k" for k]
        Cons.IH cong: if_cong)
qed

lemma fields_common_Nil_fun: "fields_common G [] cont = (\<lambda>w. (w, Inr cont))"
  by (rule ext) simp

lemma fields_common_Cons_fun:
  "fields_common G (fld # flds) cont =
     andthen (\<lambda>w. (w, field_type (self w) fld)) (\<lambda>ft.
       if ft = ''vector'' then
         andthen (call_convert_field_vec_full G fld) (\<lambda>res.
         andthen (lift (vtk_Vectors G (fst res) (snd res))) (\<lambda>vecs.
         fields_common G flds (cont @ [vecs])))
       else if ft = ''scalar'' then
         andthen (call_convert_field_scl G fld) (\<lambda>res.
         andthen (lift (vtk_Scalars G (fst res) (snd res))) (\<lambda>scl.
         fields_common G flds (cont @ [scl])))
       else fields_common G flds cont)"
  by (rule ext) (simp add: fields_common_Cons andthen_field_type split: sum.splits)

lemma fields_common_append:
  "fields_common G (xs @ ys) cont =
     andthen (fields_common G xs cont) (fields_common G ys)"
proof (induction xs arbitrary: cont)
  case Nil
  show ?case by (simp add: fields_common_Nil_fun andthen_return)
next
  case (Cons x xs)
  show ?case
    by (simp add: fields_common_Cons_fun andthen_assoc if_distrib [of "\<lambda>m. andthen m k" for k]
        Cons.IH cong: if_cong)
qed

lemma field_type_absent:
  "fields_metadata (ts s) fld = None \<Longrightarrow> field_type s fld = Inl (KeyError fld)"
  by (simp add: field_type_def getitem_def)

text \<open>
  C6: when a requested field has no entry in the metadata of the reader and the loop
  has processed the fields before it without an exception, \<open>write_fields_vtk\<close> raises
  the \<open>KeyError\<close> of the metadata lookup as it is and processes no later field. The
  world at that point is the one the loop over the earlier fields has left: nothing is
  undone. With \<open>CommonMesh\<close> false the files of the earlier fields are all there; with
  \<open>CommonMesh\<close> true no file exists yet, since the one file is written only after the
  loop. The helpers are taken to touch only the mesh cache.
\<close>

theorem absent_field_aborts:
  assumes "mesh_only G"
    and "requested flds (avail_fields (ts (self w))) = pre @ fld # post"
    and "fields_metadata (ts (self w)) fld = None"
    and "if cm then
           fields_common G pre [] (w\<lparr>self := register_fields it zfix nthv cm (self w)\<rparr>) =
             (w1, Inr cont)
         else
           fields_separate G fmt (iteration_string it) pre None
             (w\<lparr>self := register_fields it zfix nthv cm (self w)\<rparr>) = (w1, Inr c)"
  shows "write_fields_vtk G flds it fmt zfix nthv cm w = (w1, Inl (KeyError fld)) \<and>
         (\<exists>new. disk w1 = disk w @ new \<and>
            map file_name new =
              (if cm then [] else separate_names (self w) (iteration_string it) pre))"
proof (cases cm)
  case False
  let ?w0 = "w\<lparr>self := register_fields it zfix nthv False (self w)\<rparr>"
  let ?istr = "iteration_string it"
  from assms(4) False have
    pre: "fields_separate G fmt ?istr pre None ?w0 = (w1, Inr c)"
    by simp
  from fields_separate_ok [OF assms(1) pre] obtain new where
    k: "keeps_attrs (self ?w0) (self w1)" and
    d: "disk w1 = disk w @ new" and
    n: "map file_name new = separate_names (self w) ?istr pre"
    by (auto simp: separate_names_register)
  from k have "ts (self w1) = ts (self w)"
    by (simp add: keeps_attrs_def register_fields_reads)
  with assms(3) have "field_type (self w1) fld = Inl (KeyError fld)"
    by (simp add: field_type_absent)
  then have "fields_separate G fmt ?istr (fld # post) c w1 = (w1, Inl (KeyError fld))"
    by (simp add: fields_separate_Cons)
  with pre have "fields_separate G fmt ?istr (pre @ fld # post) None ?w0 = (w1, Inl (KeyError fld))"
    by (simp add: fields_separate_append andthen_def)
  with assms(2) False have "write_fields_vtk G flds it fmt zfix nthv cm w = (w1, Inl (KeyError fld))"
    by (simp add: write_fields_vtk_separate andthen_def)
  with d n False show ?thesis by auto
next
  case True
  let ?w0 = "w\<lparr>self := register_fields it zfix nthv True (self w)\<rparr>"
  from assms(4) True have
    pre: "fields_common G pre [] ?w0 = (w1, Inr cont)"
    by simp
  from fields_common_run [OF assms(1) pre] have
    k: "keeps_attrs (self ?w0) (self w1)" and d: "disk w1 = disk w"
    by simp_all
  from k have "ts (self w1) = ts (self w)"
    by (simp add: keeps_attrs_def register_fields_reads)
  with assms(3) have "field_type (self w1) fld = Inl (KeyError fld)"
    by (simp add: field_type_absent)
  then have "fields_common G (fld # post) cont w1 = (w1, Inl (KeyError fld))"
    by (simp add: fields_common_Cons)
  with pre have "fields_common G (pre @ fld # post) [] ?w0 = (w1, Inl (KeyError fld))"
    by (simp add: fields_common_append andthen_def)
  with assms(2) True have "write_fields_vtk G flds it fmt zfix nthv cm w = (w1, Inl (KeyError fld))"
    by (simp add: write_fields_vtk_common andthen_def)
  with d True show ?thesis by simp
qed

theorem unrecognised_fields_skipped_witness:
  "mesh_only G0 \<and> unrecognised (self w0) ''J'' \<and>
   write_fields_vtk G0 (Some [''E'', ''J'', ''rho'']) 3 ''binary'' None 24 False w0 =
   write_fields_vtk G0 (Some [''E'', ''rho'']) 3 ''binary'' None 24 False w0 \<and>
   snd (write_fields_vtk G0 (Some [''E'', ''J'', ''rho'']) 3 ''binary'' None 24 False w0) = Inr ()"
proof -
  have u: "unrecognised (self w0) ''J''"
    by (simp add: unrecognised_def w0_def field_types0)
  have "filter (\<lambda>f. \<not> unrecognised (self w0) f) [''E'', ''J'', ''rho''] = [''E'', ''rho'']"
    by (simp add: unrecognised_def w0_def field_types0)
  with unrecognised_fields_skipped [OF G0_mesh_only,
      of "Some [''E'', ''J'', ''rho'']" 3 "''binary''" None 24 False w0]
  have "write_fields_vtk G0 (Some [''E'', ''J'', ''rho'']) 3 ''binary'' None 24 False w0 =
        write_fields_vtk G0 (Some [''E'', ''rho'']) 3 ''binary'' None 24 False w0"
    by (simp add: requested_def)
  with u G0_mesh_only run_separate_ok show ?thesis by simp
qed

lemma loop_E:
  "fields_separate G0 ''binary'' ''0000003'' [''E''] None
     (w0\<lparr>self := register_fields 3 None 24 False (self w0)\<rparr>) =
   (\<lparr>self = self0\<lparr>iteration := 3, CommonMesh := False,
                    grid := Some (StructuredPoints [PyInt 4, PyInt 4, PyInt 4] 0 1)\<rparr>,
     disk =
       [VtkFile ''out/vtk_fields_Ex_0000003'' ''binary''
          (VtkData (Some (StructuredPoints [PyInt 4, PyInt 4, PyInt 4] 0 1)) [Scalars 1 ''Ex'']),
        VtkFile ''out/vtk_fields_Ey_0000003'' ''binary''
          (VtkData (Some (StructuredPoints [PyInt 4, PyInt 4, PyInt 4] 0 1)) [Scalars 1 ''Ey'']),
        VtkFile ''out/vtk_fields_Ez_0000003'' ''binary''
          (VtkData (Some (StructuredPoints [PyInt 4, PyInt 4, PyInt 4] 0 1)) [Scalars 1 ''Ez''])],
     calls = [VecComp ''E'' ''x'', VecComp ''E'' ''y'', VecComp ''E'' ''z'']\<rparr>,
    Inr (Some ''z''))"
  by (simp add: G0_run_defs)

theorem absent_field_aborts_witness:
  "mesh_only G0 \<and> fields_metadata (ts (self w0)) ''B'' = None \<and>
   write_fields_vtk G0 (Some [''B'', ''rho'']) 3 ''binary'' None 24 True w0 =
     (w0\<lparr>self := register_fields 3 None 24 True (self w0)\<rparr>, Inl (KeyError ''B'')) \<and>
   snd (fields_separate G0 ''binary'' (iteration_string 3) [''E''] None
          (w0\<lparr>self := register_fields 3 None 24 False (self w0)\<rparr>)) = Inr (Some ''z'') \<and>
   snd (write_fields_vtk G0 (Some [''E'', ''B'', ''rho'']) 3 ''binary'' None 24 False w0) =
     Inl (KeyError ''B'') \<and>
   map file_name
     (disk (fst (write_fields_vtk G0 (Some [''E'', ''B'', ''rho'']) 3 ''binary'' None 24 False w0))) =
     [''out/vtk_fields_Ex_0000003'', ''out/vtk_fields_Ey_0000003'', ''out/vtk_fields_Ez_0000003'']"
proof -
  let ?wc = "w0\<lparr>self := register_fields 3 None 24 True (self w0)\<rparr>"
  let ?ws = "w0\<lparr>self := register_fields 3 None 24 False (self w0)\<rparr>"
  let ?loop = "fields_separate G0 ''binary'' (iteration_string 3) [''E''] None ?ws"
  have b: "fields_metadata (ts (self w0)) ''B'' = None"
    by (simp add: w0_def self0_def ts0_def)
  have first: "requested (Some [''B'', ''rho'']) (avail_fields (ts (self w0))) = [] @ ''B'' # [''rho'']"
    by (simp add: requested_def)
  have "if True then fields_common G0 [] [] ?wc = (?wc, Inr [])
        else fields_separate G0 ''binary'' (iteration_string 3) [] None ?wc = (?wc, Inr None)"
    by simp
  from absent_field_aborts [OF G0_mesh_only first b this]
  have common: "write_fields_vtk G0 (Some [''B'', ''rho'']) 3 ''binary'' None 24 True w0 =
                  (?wc, Inl (KeyError ''B''))"
    by simp
  have later: "requested (Some [''E'', ''B'', ''rho'']) (avail_fields (ts (self w0))) =
                 [''E''] @ ''B'' # [''rho'']"
    by (simp add: requested_def)
  have ok: "snd ?loop = Inr (Some ''z'')"
    by (simp add: iteration_string_3 loop_E)
  then have "if False then fields_common G0 [''E''] [] ?ws = (fst ?loop, Inr [])
        else ?loop = (fst ?loop, Inr (Some ''z''))"
    by (metis prod.collapse)
  from absent_field_aborts [OF G0_mesh_only later b this]
  have sep: "write_fields_vtk G0 (Some [''E'', ''B'', ''rho'']) 3 ''binary'' None 24 False w0 =
               (fst ?loop, Inl (KeyError ''B''))"
    by simp
  have "map file_name (disk (fst ?loop)) =
     [''out/vtk_fields_Ex_0000003'', ''out/vtk_fields_Ey_0000003'', ''out/vtk_fields_Ez_0000003'']"
    by (simp add: iteration_string_3 loop_E)
  with G0_mesh_only b common ok sep show ?thesis by simp
qed

section \<open>write_species_vtk and the per-call parameters\<close>

lemma scalars_loop_Cons:
  "scalars_loop G i (scalar # others) scalars_vtk w =
     (case astype G scalar (dtype (self w)) of
        Inl e \<Rightarrow> (w, Inl e)
      | Inr arr \<Rightarrow>
          if i < length (scalars (self w)) then
            (case vtk_Scalars G arr (scalars (self w) ! i) of
               Inl e \<Rightarrow> (w, Inl e)
             | Inr s \<Rightarrow> scalars_loop G (Suc i) others (scalars_vtk @ [s]) w)
          else (w, Inl IndexError))"
  by (simp add: andthen_def lift_def split: sum.splits)

declare scalars_loop.simps(2) [simp del]

lemma scalars_loop_run: "scalars_loop G i raw acc w = (w', r) \<Longrightarrow> w' = w"
  by (induction raw arbitrary: i acc)
     (auto simp: scalars_loop_Cons split: sum.splits if_splits)

lemma vtk_Scalars_Inr: "vtk_Scalars G a n = Inr s \<Longrightarrow> s = Scalars a n"
  by (auto simp: vtk_Scalars_def split: option.splits)

lemma scalars_loop_ok:
  "scalars_loop G i raw acc w = (w', Inr out) \<Longrightarrow>
     \<exists>arrs. map (\<lambda>a. astype G a (dtype (self w))) raw = map Inr arrs \<and>
            (raw = [] \<or> i + length raw \<le> length (scalars (self w))) \<and>
            out = acc @ map (\<lambda>(a, n). Scalars a n) (zip arrs (drop i (scalars (self w))))"
proof (induction raw arbitrary: i acc)
  case Nil
  then show ?case by simp
next
  case (Cons x xs)
  from Cons.prems obtain arr where
    a: "astype G x (dtype (self w)) = Inr arr" and i: "i < length (scalars (self w))" and
    rest: "scalars_loop G (Suc i) xs (acc @ [Scalars arr (scalars (self w) ! i)]) w = (w', Inr out)"
    by (auto simp: scalars_loop_Cons split: sum.splits if_splits dest: vtk_Scalars_Inr)
  from Cons.IH [OF rest] obtain arrs where
    m: "map (\<lambda>a. astype G a (dtype (self w))) xs = map Inr arrs" and
    l: "xs = [] \<or> Suc i + length xs \<le> length (scalars (self w))" and
    o: "out = (acc @ [Scalars arr (scalars (self w) ! i)]) @
              map (\<lambda>(a, n). Scalars a n) (zip arrs (drop (Suc i) (scalars (self w))))"
    by blast
  from i have d: "drop i (scalars (self w)) = scalars (self w) ! i # drop (Suc i) (scalars (self w))"
    by (simp add: Cons_nth_drop_Suc)
  from a m have "map (\<lambda>a. astype G a (dtype (self w))) (x # xs) = map Inr (arr # arrs)"
    by simp
  moreover from i l have "i + length (x # xs) \<le> length (scalars (self w))"
    by auto
  moreover from o d have
    "out = acc @ map (\<lambda>(a, n). Scalars a n) (zip (arr # arrs) (drop i (scalars (self w))))"
    by simp
  ultimately show ?case by blast
qed

lemma map_sum_Inr: "map_sum f g x = Inr s \<longleftrightarrow> (\<exists>t. x = Inr t \<and> s = g t)"
  by (cases x) auto

lemma suffix_Cons_right: "suffix xs ys \<Longrightarrow> suffix xs (y # ys)"
  by (simp add: suffix_Cons)

lemma py_format_specie_Nil:
  "py_format ''vtk_specie_{:}_{:}'' args = Inr s \<Longrightarrow> length args \<le> 2 \<Longrightarrow>
   \<exists>a b. args = [a, b] \<and> s = ''vtk_specie_'' @ a @ ''_'' @ b"
  by (cases args; cases "tl args"; cases "tl (tl args)") (auto simp: map_sum_Inr)

lemma py_format_specie:
  "py_format (p @ ''vtk_specie_{:}_{:}'') args = Inr s \<Longrightarrow> length args \<le> 2 \<Longrightarrow>
   \<exists>a b. args = [a, b] \<and> suffix (''vtk_specie_'' @ a @ ''_'' @ b) s"
proof (induction p arbitrary: args s rule: length_induct)
  case (1 p)
  note IH = "1.IH" [rule_format]
  show ?case
  proof (cases p)
    case Nil
    with py_format_specie_Nil [of args s] "1.prems" show ?thesis
      by auto
  next
    case (Cons c cs)
    note p = Cons
    consider (open_brace) "c = CHR ''{''" | (close_brace) "c = CHR ''}''"
      | (plain) "c \<noteq> CHR ''{''" "c \<noteq> CHR ''}''"
      by blast
    then show ?thesis
    proof cases
      case plain
      with "1.prems"(1) p obtain t where
        t: "py_format (cs @ ''vtk_specie_{:}_{:}'') args = Inr t" and s: "s = c # t"
        by (auto simp: map_sum_Inr)
      from IH [OF _ t "1.prems"(2)] p s show ?thesis
        by (auto intro: suffix_Cons_right)
    next
      case close_brace
      show ?thesis
      proof (cases cs)
        case Nil
        with "1.prems"(1) p close_brace show ?thesis by simp
      next
        case (Cons d ds)
        with "1.prems"(1) p close_brace obtain t where
          t: "py_format (ds @ ''vtk_specie_{:}_{:}'') args = Inr t" and s: "s = CHR ''}'' # t"
          by (auto simp: map_sum_Inr split: if_splits)
        from IH [OF _ t "1.prems"(2)] p Cons s show ?thesis
          by (auto intro: suffix_Cons_right)
      qed
    next
      case open_brace
      show ?thesis
      proof (cases cs)
        case Nil
        with "1.prems"(1) p open_brace show ?thesis by simp
      next
        case (Cons d ds)
        note cs = Cons
        consider (escaped) "d = CHR ''{''" | (auto_field) "d = CHR ''}''"
          | (colon) "d = CHR '':''" | (other) "d \<noteq> CHR ''{''" "d \<noteq> CHR ''}''" "d \<noteq> CHR '':''"
          by blast
        then show ?thesis
        proof cases
          case escaped
          with "1.prems"(1) p cs open_brace obtain t where
            t: "py_format (ds @ ''vtk_specie_{:}_{:}'') args = Inr t" and s: "s = CHR ''{'' # t"
            by (auto simp: map_sum_Inr)
          from IH [OF _ t "1.prems"(2)] p cs s show ?thesis
            by (auto intro: suffix_Cons_right)
        next
          case auto_field
          with "1.prems"(1) p cs open_brace obtain a others t where
            args: "args = a # others" and
            t: "py_format (ds @ ''vtk_specie_{:}_{:}'') others = Inr t"
            by (auto simp: map_sum_Inr split: list.splits)
          from args "1.prems"(2) have "length others \<le> 2" by simp
          from IH [OF _ t this] p cs args "1.prems"(2) show ?thesis
            by auto
        next
          case colon
          show ?thesis
          proof (cases ds)
            case Nil
            with "1.prems"(1) p cs open_brace colon show ?thesis by simp
          next
            case (Cons e es)
            with "1.prems"(1) p cs open_brace colon obtain a others t where
              args: "args = a # others" and
              t: "py_format (es @ ''vtk_specie_{:}_{:}'') others = Inr t"
              by (auto simp: map_sum_Inr split: list.splits if_splits)
            from args "1.prems"(2) have "length others \<le> 2" by simp
            from IH [OF _ t this] p cs Cons args "1.prems"(2) show ?thesis
              by auto
          qed
        next
          case other
          with "1.prems"(1) p cs open_brace show ?thesis by simp
        qed
      qed
    qed
  qed
qed

lemma species_loop_Cons:
  "species_loop G fmt istr name_base (specie # others) w =
     andthen (call_convert_species G specie) (\<lambda>res.
     andthen (lift (vtk_structure G (PolyData (fst res)))) (\<lambda>pts_vtk.
     andthen (scalars_loop G 0 (snd res) []) (\<lambda>scalars_vtk.
     andthen (lift (vtk_VtkData G (Some pts_vtk) scalars_vtk)) (\<lambda>d.
     andthen (lift (py_format name_base [specie, istr])) (\<lambda>name.
     andthen (vtk_tofile G d name fmt) (\<lambda>u.
     species_loop G fmt istr name_base others)))))) w"
  by (simp add: case_prod_unfold)

declare species_loop.simps(2) [simp del]

lemma species_loop_keeps:
  assumes "mesh_only G"
  shows "species_loop G fmt istr name_base species w = (w', r) \<Longrightarrow>
           keeps_attrs (self w) (self w')"
proof (induction species arbitrary: w)
  case Nil
  then show ?case by (auto simp: keeps_attrs_refl)
next
  case (Cons specie others)
  from Cons.prems have
    "andthen (call_convert_species G specie) (\<lambda>res.
     andthen (lift (vtk_structure G (PolyData (fst res)))) (\<lambda>pts_vtk.
     andthen (scalars_loop G 0 (snd res) []) (\<lambda>scalars_vtk.
     andthen (lift (vtk_VtkData G (Some pts_vtk) scalars_vtk)) (\<lambda>d.
     andthen (lift (py_format name_base [specie, istr])) (\<lambda>name.
     andthen (vtk_tofile G d name fmt) (\<lambda>u.
     species_loop G fmt istr name_base others)))))) w = (w', r)"
    by (simp only: species_loop_Cons)
  then show ?case
  proof (cases rule: andthen_cases)
    case (raised e)
    with call_species_run [OF assms] show ?thesis by blast
  next
    case (went_on w1 res)
    from call_species_run [OF assms went_on(1)] have k1: "keeps_attrs (self w) (self w1)"
      by simp
    have "keeps_attrs (self w1) (self w')"
      using went_on(2)
      by (elim andthen_cases)
         (auto dest!: lift_run scalars_loop_run vtk_tofile_cases dest: Cons.IH
            simp: keeps_attrs_refl)
    with k1 show ?thesis by (rule keeps_attrs_trans)
  qed
qed

lemma vtk_structure_Inr: "vtk_structure G g = Inr g' \<Longrightarrow> g' = g"
  by (auto simp: vtk_structure_def split: option.splits)

lemma vtk_VtkData_Inr: "vtk_VtkData G g attrs = Inr d \<Longrightarrow> d = VtkData g attrs"
  by (auto simp: vtk_VtkData_def split: option.splits)

lemma keeps_species_file:
  "keeps_attrs s s' \<Longrightarrow> species_file G s' names = species_file G s names"
  by (intro ext) (auto simp: species_file_def keeps_attrs_def)

lemma species_loop_ok:
  assumes "mesh_only G"
  shows "species_loop G fmt istr (p @ ''vtk_specie_{:}_{:}'') species w = (w', Inr ()) \<Longrightarrow>
     \<exists>new. disk w' = disk w @ new \<and>
       list_all2 (species_file G (self w) (scalars (self w)) fmt istr) species new"
proof (induction species arbitrary: w)
  case Nil
  then show ?case by simp
next
  case (Cons specie others)
  let ?nb = "p @ ''vtk_specie_{:}_{:}''"
  from Cons.prems obtain w1 points raw pts_vtk w2 scalars_vtk d name w3 where
    call: "call_convert_species G specie w = (w1, Inr (points, raw))" and
    pts: "vtk_structure G (PolyData points) = Inr pts_vtk" and
    scl: "scalars_loop G 0 raw [] w1 = (w2, Inr scalars_vtk)" and
    dat: "vtk_VtkData G (Some pts_vtk) scalars_vtk = Inr d" and
    nam: "py_format ?nb [specie, istr] = Inr name" and
    wr: "vtk_tofile G d name fmt w2 = (w3, Inr ())" and
    rest: "species_loop G fmt istr ?nb others w3 = (w', Inr ())"
    by (auto simp: species_loop_Cons andthen_Inr lift_def)
  from call_species_run [OF assms call] have
    k1: "keeps_attrs (self w) (self w1)" and d1: "disk w1 = disk w"
    by simp_all
  from call have res: "snd (convert_species G (self w) specie) = Inr (points, raw)"
    by (auto simp: call_convert_species_def split: prod.splits)
  from scalars_loop_run [OF scl] have w2: "w2 = w1" .
  from scalars_loop_ok [OF scl] obtain arrs where
    m: "map (\<lambda>a. astype G a (dtype (self w1))) raw = map Inr arrs" and
    l: "raw = [] \<or> length raw \<le> length (scalars (self w1))" and
    o: "scalars_vtk = map (\<lambda>(a, n). Scalars a n) (zip arrs (scalars (self w1)))"
    by auto
  from m have "length raw = length arrs"
    by (metis length_map)
  with l have la: "length arrs \<le> length (scalars (self w1))" by auto
  from k1 have same: "dtype (self w1) = dtype (self w)" "scalars (self w1) = scalars (self w)"
    by (simp_all add: keeps_attrs_def)
  from py_format_specie [OF nam] have suf: "suffix (''vtk_specie_'' @ specie @ ''_'' @ istr) name"
    by simp
  let ?f = "VtkFile name fmt d"
  from vtk_tofile_cases [OF wr] w2 have w3: "w3 = w1\<lparr>disk := disk w1 @ [?f]\<rparr>"
    by simp
  then have s3: "self w3 = self w1" and d3: "disk w3 = disk w1 @ [?f]"
    by simp_all
  from vtk_structure_Inr [OF pts] vtk_VtkData_Inr [OF dat] o
  have "d = VtkData (Some (PolyData points))
              (map (\<lambda>(a, n). Scalars a n) (zip arrs (scalars (self w1))))"
    by simp
  with res m la suf same have f: "species_file G (self w) (scalars (self w)) fmt istr specie ?f"
    unfolding species_file_def
    by (intro exI [of _ "self w"] exI [of _ points] exI [of _ raw] exI [of _ arrs])
       (simp add: keeps_attrs_refl)
  from Cons.IH [OF rest] s3 obtain new where
    d': "disk w' = disk w3 @ new" and
    n: "list_all2 (species_file G (self w1) (scalars (self w1)) fmt istr) others new"
    by auto
  from n same have "list_all2 (species_file G (self w) (scalars (self w)) fmt istr) others new"
    by (simp add: keeps_species_file [OF k1])
  with f d' d3 d1 have
    "disk w' = disk w @ (?f # new) \<and>
     list_all2 (species_file G (self w) (scalars (self w)) fmt istr) (specie # others) (?f # new)"
    by simp
  then show ?case by blast
qed

lemma register_species_reads:
  "ts (register_species it zfix sel scs s) = ts s"
  "path (register_species it zfix sel scs s) = path s"
  "iteration (register_species it zfix sel scs s) = it"
  "scalars (register_species it zfix sel scs s) = scs"
  by (auto simp: register_species_def)

lemma write_species_vtk_loop:
  "write_species_vtk G species it fmt scs sel zfix w =
     species_loop G fmt (iteration_string it) (path (self w) @ ''vtk_specie_{:}_{:}'')
       (requested species (avail_species (ts (self w))))
       (w\<lparr>self := register_species it zfix sel scs (self w)\<rparr>)"
  by (simp add: write_species_vtk_def Let_def register_species_reads)

text \<open>
  C7: a call of \<open>write_species_vtk\<close> that completes without an exception has written
  exactly one file for each species of the resolved list, in the order of the list and
  nothing else. Each is a \<open>species_file\<close>: named \<open>vtk_specie_<species>_<iter7>\<close>,
  holding the point cloud of the species and its per-particle arrays as scalar arrays,
  the i-th array under the i-th entry of the argument \<open>scalars\<close>. The helpers are taken
  to touch only the mesh cache.
\<close>

theorem write_species_vtk_files:
  assumes "mesh_only G"
    and "write_species_vtk G species it fmt scs sel zfix w = (w', Inr ())"
  shows "\<exists>new. disk w' = disk w @ new \<and>
           list_all2
             (species_file G (register_species it zfix sel scs (self w)) scs fmt
                (iteration_string it))
             (requested species (avail_species (ts (self w)))) new"
proof -
  let ?w1 = "w\<lparr>self := register_species it zfix sel scs (self w)\<rparr>"
  from assms(2) have
    "species_loop G fmt (iteration_string it) (path (self w) @ ''vtk_specie_{:}_{:}'')
       (requested species (avail_species (ts (self w)))) ?w1 = (w', Inr ())"
    by (simp only: write_species_vtk_loop)
  from species_loop_ok [OF assms(1) this] show ?thesis
    by (simp add: register_species_reads)
qed

lemma write_fields_vtk_keeps:
  assumes "mesh_only G" and "write_fields_vtk G flds it fmt zfix nthv cm w = (w', r)"
  shows "keeps_attrs (register_fields it zfix nthv cm (self w)) (self w')"
proof (cases cm)
  case False
  with assms(2) have
    "andthen (fields_separate G fmt (iteration_string it)
                (requested flds (avail_fields (ts (self w)))) None)
       (\<lambda>last_comp. lift (Inr ()))
       (w\<lparr>self := register_fields it zfix nthv False (self w)\<rparr>) = (w', r)"
    by (simp only: write_fields_vtk_separate)
  then show ?thesis
    using False
    by (elim andthen_cases) (auto dest!: lift_run dest: fields_separate_run [OF assms(1)])
next
  case True
  with assms(2) have
    "andthen (fields_common G (requested flds (avail_fields (ts (self w)))) []) (\<lambda>vtk_container.
     andthen (\<lambda>w. (w, vtk_VtkData G (grid (self w)) vtk_container)) (\<lambda>d.
     andthen (\<lambda>w. (w, Inr (path (self w) @ ''vtk_fields_'' @ iteration_string it))) (\<lambda>name.
     vtk_tofile G d name fmt)))
       (w\<lparr>self := register_fields it zfix nthv True (self w)\<rparr>) = (w', r)"
    by (simp only: write_fields_vtk_common)
  then show ?thesis
    using True
    by (elim andthen_cases)
       (auto dest!: vtk_tofile_cases dest: fields_common_run [OF assms(1)])
qed

lemma write_species_vtk_keeps:
  assumes "mesh_only G" and "write_species_vtk G species it fmt scs sel zfix w = (w', r)"
  shows "keeps_attrs (register_species it zfix sel scs (self w)) (self w')"
  using assms(2) species_loop_keeps [OF assms(1)]
  by (fastforce simp: write_species_vtk_loop)

text \<open>
  C10: \<open>write_fields_vtk\<close> overwrites the attributes \<open>iteration\<close>, \<open>zmin_fixed\<close>,
  \<open>CommonMesh\<close>, \<open>Nth\<close> and \<open>grid\<close>, and \<open>write_species_vtk\<close> overwrites
  \<open>iteration\<close>, \<open>zmin_fixed\<close>, \<open>select\<close> and \<open>scalars\<close>: what these attributes held
  before the call makes no difference to it. After the call, whether it completed or
  raised, the instance holds the arguments of the call in these attributes (for
  \<open>grid\<close>, whatever mesh the helpers built), and the parameters that the call does not
  assign are those of the call before. The helpers are taken to touch only the mesh
  cache.
\<close>

theorem per_call_parameters_persist:
  assumes "mesh_only G"
  shows
    "write_fields_vtk G flds it fmt zfix nthv cm
       (w\<lparr>self := (self w)\<lparr>iteration := i0, zmin_fixed := z0, CommonMesh := c0, Nth := n0,
                            grid := g0\<rparr>\<rparr>) =
     write_fields_vtk G flds it fmt zfix nthv cm w \<and>
     write_species_vtk G species it' fmt' scs sel zfix'
       (w\<lparr>self := (self w)\<lparr>iteration := i0, zmin_fixed := z0, select := s0, scalars := sc0\<rparr>\<rparr>) =
     write_species_vtk G species it' fmt' scs sel zfix' w \<and>
     (let s = self (fst (write_fields_vtk G flds it fmt zfix nthv cm w)) in
        iteration s = it \<and> zmin_fixed s = zfix \<and> CommonMesh s = cm \<and> Nth s = nthv \<and>
        select s = select (self w) \<and> scalars s = scalars (self w)) \<and>
     (let s = self (fst (write_species_vtk G species it' fmt' scs sel zfix' w)) in
        iteration s = it' \<and> zmin_fixed s = zfix' \<and> select s = sel \<and> scalars s = scs \<and>
        CommonMesh s = CommonMesh (self w) \<and> Nth s = Nth (self w))"
proof -
  have a: "write_fields_vtk G flds it fmt zfix nthv cm
       (w\<lparr>self := (self w)\<lparr>iteration := i0, zmin_fixed := z0, CommonMesh := c0, Nth := n0,
                            grid := g0\<rparr>\<rparr>) =
     write_fields_vtk G flds it fmt zfix nthv cm w"
    by (simp add: write_fields_vtk_def register_fields_def)
  have b: "write_species_vtk G species it' fmt' scs sel zfix'
       (w\<lparr>self := (self w)\<lparr>iteration := i0, zmin_fixed := z0, select := s0, scalars := sc0\<rparr>\<rparr>) =
     write_species_vtk G species it' fmt' scs sel zfix' w"
    by (simp add: write_species_vtk_def register_species_def)
  let ?f = "write_fields_vtk G flds it fmt zfix nthv cm w"
  let ?s = "write_species_vtk G species it' fmt' scs sel zfix' w"
  have "?f = (fst ?f, snd ?f)" by simp
  from write_fields_vtk_keeps [OF assms this] have c:
    "iteration (self (fst ?f)) = it \<and> zmin_fixed (self (fst ?f)) = zfix \<and>
     CommonMesh (self (fst ?f)) = cm \<and> Nth (self (fst ?f)) = nthv \<and>
     select (self (fst ?f)) = select (self w) \<and> scalars (self (fst ?f)) = scalars (self w)"
    by (simp add: keeps_attrs_def register_fields_def)
  have "?s = (fst ?s, snd ?s)" by simp
  from write_species_vtk_keeps [OF assms this] have d:
    "iteration (self (fst ?s)) = it' \<and> zmin_fixed (self (fst ?s)) = zfix' \<and>
     select (self (fst ?s)) = sel \<and> scalars (self (fst ?s)) = scs \<and>
     CommonMesh (self (fst ?s)) = CommonMesh (self w) \<and> Nth (self (fst ?s)) = Nth (self w)"
    by (simp add: keeps_attrs_def register_species_def)
  from a b c d show ?thesis
    by (simp only: Let_def)
qed

lemma iteration_string_12: "iteration_string 12 = ''0000012''"
  by (simp add: iteration_string_def py_str_def pad7.simps str_nat.simps)

lemmas G0_species_defs =
  requested_def andthen_def lift_def G0_def w0_def self0_def ts0_def register_species_def
  call_convert_species_def vtk_structure_def vtk_Scalars_def vtk_VtkData_def vtk_tofile_def
  species_loop.simps scalars_loop.simps

lemma run_species:
  "write_species_vtk G0 None 12 ''ascii'' [''ux'', ''w''] None None w0 =
     (w0\<lparr>self := register_species 12 None None [''ux'', ''w''] self0,
         disk := [VtkFile ''out/vtk_specie_electrons_0000012'' ''ascii''
                    (VtkData (Some (PolyData 7)) [Scalars 2 ''ux'', Scalars 1 ''w''])],
         calls := [Species ''electrons'']\<rparr>, Inr ())"
  by (simp add: write_species_vtk_def iteration_string_12 G0_species_defs sum.map_comp comp_def)

theorem write_species_vtk_files_witness:
  "mesh_only G0 \<and>
   snd (write_species_vtk G0 None 12 ''ascii'' [''ux'', ''w''] None None w0) = Inr () \<and>
   (\<exists>f. disk (fst (write_species_vtk G0 None 12 ''ascii'' [''ux'', ''w''] None None w0)) = [f] \<and>
        species_file G0 (register_species 12 None None [''ux'', ''w''] (self w0)) [''ux'', ''w'']
          ''ascii'' (iteration_string 12) ''electrons'' f) \<and>
   disk (fst (write_species_vtk G0 None 12 ''ascii'' [''ux'', ''w''] None None w0)) =
     [VtkFile ''out/vtk_specie_electrons_0000012'' ''ascii''
        (VtkData (Some (PolyData 7)) [Scalars 2 ''ux'', Scalars 1 ''w''])]"
proof -
  let ?run = "write_species_vtk G0 None 12 ''ascii'' [''ux'', ''w''] None None w0"
  have ok: "snd ?run = Inr ()"
    by (simp add: run_species)
  then have "?run = (fst ?run, Inr ())"
    by (metis prod.collapse)
  from write_species_vtk_files [OF G0_mesh_only this] obtain new where
    "disk (fst ?run) = disk w0 @ new" and
    "list_all2
       (species_file G0 (register_species 12 None None [''ux'', ''w''] (self w0)) [''ux'', ''w'']
          ''ascii'' (iteration_string 12))
       (requested None (avail_species (ts (self w0)))) new"
    by blast
  then have "\<exists>f. disk (fst ?run) = [f] \<and>
        species_file G0 (register_species 12 None None [''ux'', ''w''] (self w0)) [''ux'', ''w'']
          ''ascii'' (iteration_string 12) ''electrons'' f"
    by (auto simp: requested_def w0_def self0_def ts0_def list_all2_Cons1)
  with G0_mesh_only ok show ?thesis
    by (simp add: run_species)
qed

theorem per_call_parameters_persist_witness:
  "mesh_only G0 \<and>
   CommonMesh (self (fst (write_fields_vtk G0 (Some [''E'']) 3 ''binary'' None 24 False w0))) = False \<and>
   iteration (self (fst (write_fields_vtk G0 (Some [''E'']) 3 ''binary'' None 24 False w0))) = 3 \<and>
   (let w1 = fst (write_fields_vtk G0 (Some [''E'']) 3 ''binary'' None 24 False w0);
        s2 = self (fst (write_species_vtk G0 None 12 ''ascii'' [''ux'', ''w''] None None w1))
    in CommonMesh s2 = False \<and> Nth s2 = 24 \<and> iteration s2 = 12 \<and> scalars s2 = [''ux'', ''w''])"
proof -
  let ?w1 = "fst (write_fields_vtk G0 (Some [''E'']) 3 ''binary'' None 24 False w0)"
  let ?s2 = "self (fst (write_species_vtk G0 None 12 ''ascii'' [''ux'', ''w''] None None ?w1))"
  from per_call_parameters_persist [OF G0_mesh_only,
      where flds = "Some [''E'']" and it = 3 and fmt = "''binary''" and zfix = None
        and nthv = 24 and cm = False and w = w0]
  have f: "CommonMesh (self ?w1) = False \<and> iteration (self ?w1) = 3 \<and> Nth (self ?w1) = 24"
    by (simp add: Let_def)
  from per_call_parameters_persist [OF G0_mesh_only,
      where w = ?w1 and species = None and it' = 12 and fmt' = "''ascii''"
        and scs = "[''ux'', ''w'']" and sel = None and zfix' = None]
  have "CommonMesh ?s2 = CommonMesh (self ?w1) \<and> Nth ?s2 = Nth (self ?w1) \<and>
        iteration ?s2 = 12 \<and> scalars ?s2 = [''ux'', ''w'']"
    by (simp add: Let_def)
  with f G0_mesh_only show ?thesis
    by (simp add: Let_def)
qed

end
